theory Spec2Isabelle
  imports Complex_Main
begin

section \<open>Data model of app.py\<close>

text \<open>
  The tables are lists of rows in insertion order.  A query
  \<^verbatim>\<open>db.query(T).filter(p).first()\<close> is \<open>find p\<close> on the table.  Integer columns are
  nullable in the schema, but every row is written by an endpoint from a pydantic
  \<^verbatim>\<open>int\<close> field (or by the seed), so a column holds an \<open>int\<close> and
  \<^verbatim>\<open>int(x or 0)\<close> is \<open>x\<close>.  Python's integers are unbounded: \<open>int\<close>.  The columns are
  SQLite \<^verbatim>\<open>INTEGER\<close>s, which are signed 64-bit: the bound is checked where a value is
  written (\<open>int64\<close>, \<open>bind_ok\<close> below).
\<close>

type_synonym datetime = int
type_synonym float = real

record UserDB =
  u_id :: string
  u_name :: string
  u_email :: string
  u_password :: string
  u_avatar :: string
  u_isAdmin :: bool
  u_coins :: int
  u_dailyAttempts :: int
  u_lastAttemptDate :: datetime
  u_isBanned :: bool
  u_mobile :: "string option"
  u_gender :: "string option"
  u_bio :: "string option"
  u_specializations :: "string list option"
  u_referralCode :: "string option"
  u_referredBy :: "string option"

record PollDB =
  pl_id :: string
  pl_title :: string
  pl_description :: string
  pl_category :: string
  pl_thumbnail :: string
  pl_createdAt :: datetime
  pl_disableVoiceComments :: bool

text \<open>\<open>votedBy\<close> is a text column holding \<^verbatim>\<open>json.dumps\<close> of a list of user ids; the model keeps
  the list that \<^verbatim>\<open>json.loads\<close> gives back.\<close>

record PollOptionDB =
  o_id :: string
  o_poll_id :: string
  o_text :: string
  o_imageUrl :: string
  o_votes :: int
  o_votedBy :: "string list"

record RedemptionRequestDB =
  r_id :: string
  r_user_id :: string
  r_amount :: int
  r_paymentDetails :: string
  r_status :: string
  r_requestedAt :: datetime
  r_updatedAt :: "datetime option"
  r_adminNotes :: "string option"

record GameResultDB =
  gr_id :: string
  gr_user_id :: string
  gr_targetTime :: float
  gr_actualTime :: float
  gr_accuracy :: float
  gr_coinsWon :: int
  gr_playedAt :: datetime

record AdsStatsDB =
  a_id :: nat
  a_user_id :: string
  a_date :: string
  a_watched :: int
  a_coins :: int

text \<open>\<open>parent_id\<close> is NULL for a comment on the poll and the id of the parent for a reply.
  SQLite does not enforce the foreign keys, so \<open>user_id\<close> and \<open>parent_id\<close> may name rows that
  do not exist (any more).\<close>

record CommentDB =
  c_id :: string
  c_poll_id :: string
  c_user_id :: string
  c_text :: string
  c_audio_url :: "string option"
  c_timestamp :: datetime
  c_likes :: int
  c_likedBy :: "string list"
  c_parent_id :: "string option"
  c_flaggedForReview :: bool
  c_reviewReason :: "string option"

record db =
  users :: "UserDB list"
  polls :: "PollDB list"
  poll_options :: "PollOptionDB list"
  comments :: "CommentDB list"
  redemption_requests :: "RedemptionRequestDB list"
  game_results :: "GameResultDB list"
  settings :: "(string \<times> string) list"
  ads_stats :: "AdsStatsDB list"

subsection \<open>Request and response bodies (the pydantic models)\<close>

record User =
  p_id :: string
  p_name :: string
  p_email :: string
  p_password :: string
  p_avatar :: string
  p_isAdmin :: bool
  p_coins :: int
  p_dailyAttempts :: int
  p_lastAttemptDate :: string
  p_isBanned :: bool
  p_mobile :: "string option"
  p_gender :: "string option"
  p_bio :: "string option"
  p_specializations :: "string list option"
  p_referralCode :: "string option"
  p_referredBy :: "string option"

record CommentUser =
  cu_id :: string
  cu_name :: string
  cu_email :: string
  cu_avatar :: string

record PollOption =
  po_id :: string
  po_text :: string
  po_imageUrl :: string
  po_votes :: int
  po_votedBy :: "string list"

datatype Comment =
  Comment (cm_id: string) (cm_user: CommentUser) (cm_text: string) (cm_audio_url: "string option")
    (cm_timestamp: string) (cm_likes: int) (cm_replies: "Comment list")
    (cm_flaggedForReview: bool) (cm_reviewReason: "string option")

record Poll =
  pv_id :: string
  pv_title :: string
  pv_description :: string
  pv_category :: string
  pv_thumbnail :: string
  pv_options :: "PollOption list"
  pv_comments :: "Comment list"
  pv_createdAt :: string
  pv_disableVoiceComments :: bool

record RedemptionRequest =
  q_id :: string
  q_user :: CommentUser
  q_amount :: int
  q_paymentDetails :: string
  q_status :: string
  q_requestedAt :: string
  q_updatedAt :: "string option"
  q_adminNotes :: "string option"

record GameResult =
  g_id :: string
  g_user :: CommentUser
  g_targetTime :: float
  g_actualTime :: float
  g_accuracy :: float
  g_coinsWon :: int
  g_playedAt :: string

record AdsStats =
  s_userId :: string
  s_date :: string
  s_watched :: int
  s_coins :: int

record RewardBody =
  rb_userId :: string
  rb_amount :: int

record ApplyReferralBody =
  ab_referralCode :: string
  ab_joinerUserId :: string

record ReferralRewardsBody =
  rr_referrerCoins :: int
  rr_refereeCoins :: int

subsection \<open>Errors and the runtime\<close>

datatype detail =
    Poll_not_found
  | Option_not_found
  | User_not_found
  | Joiner_user_not_found
  | Referral_already_applied
  | Invalid_referral_code
  | Cannot_refer_yourself
  | Email_already_exists
  | Insufficient_coins int int
  | Request_not_found
  | User_not_found_for_this_request
  | User_account_not_found
  | Not_enough_coins int int
  | Failed_to_grant_reward
  | Failed_to_apply_referral

text \<open>
  \<open>HTTPException status detail\<close> is the exception the endpoints raise themselves.
  \<open>IntegrityError\<close> is what \<^verbatim>\<open>db.commit()\<close> raises on a primary-key or unique
  violation and \<open>OverflowError\<close> what it raises when an integer to be written does not fit
  a signed 64-bit column; \<open>ParserError\<close> is what \<^verbatim>\<open>date_parser.parse\<close> raises,
  \<open>RequestValidationError\<close> what FastAPI raises for a query parameter outside its
  declared range (\<^verbatim>\<open>Query(1, ge=1)\<close>), \<open>AttributeError\<close> what reading a field of
  \<^verbatim>\<open>None\<close> raises, and \<open>RecursionError\<close> what the interpreter raises when calls nest
  deeper than it allows.  Each request has its own session, and a session that is closed
  without a commit writes nothing: a call that raises before or in its commit leaves the
  database as it was.  Only \<^verbatim>\<open>add_vote\<close> can raise after its commit; its result carries
  the database beside the answer.
\<close>

datatype error =
    HTTPException nat detail
  | IntegrityError
  | OverflowError
  | ParserError
  | RequestValidationError
  | AttributeError
  | RecursionError

text \<open>
  What a call takes from outside the database: the clock (\<^verbatim>\<open>datetime.now(IST)\<close> and
  \<^verbatim>\<open>today_ist_date_str()\<close>), dateutil's parser (\<open>None\<close> when it raises), \<^verbatim>\<open>isoformat\<close>,
  Python's \<^verbatim>\<open>int\<close> on a string (\<open>None\<close> for \<^verbatim>\<open>ValueError\<close>) and \<^verbatim>\<open>str\<close> on an integer, and
  how many nested calls of \<^verbatim>\<open>build_comments\<close> the interpreter's recursion limit still
  allows when \<^verbatim>\<open>db_to_poll\<close> is entered.
\<close>

record env =
  now :: datetime
  today_ist_date_str :: string
  date_parse :: "string \<Rightarrow> datetime option"
  isoformat :: "datetime \<Rightarrow> string"
  py_int :: "string \<Rightarrow> int option"
  py_str :: "int \<Rightarrow> string"
  recursion_limit :: nat

text \<open>
  \<open>int64 n\<close>: \<open>n\<close> fits a SQLite \<^verbatim>\<open>INTEGER\<close>.  The flush of a commit binds the integer of
  every column of a new row, and of every column of a loaded row whose value differs
  from the loaded one (an attribute assigned the value it had is not part of the
  \<^verbatim>\<open>UPDATE\<close>); binding an integer outside the range raises \<^verbatim>\<open>OverflowError\<close> and nothing is
  written.  \<open>bind_ok old new\<close> is the check for a loaded row's column.
\<close>

definition int64 :: "int \<Rightarrow> bool" where
  "int64 n \<longleftrightarrow> - (2 ^ 63) \<le> n \<and> n < 2 ^ 63"

definition bind_ok :: "int \<Rightarrow> int \<Rightarrow> bool" where
  "bind_ok old new \<longleftrightarrow> new = old \<or> int64 new"

text \<open>The database after a call: the committed state, or the old one when the call raised.\<close>

definition db_after :: "db \<Rightarrow> error + (db \<times> 'r) \<Rightarrow> db" where
  "db_after d res = (case res of Inl e \<Rightarrow> d | Inr (d', r) \<Rightarrow> d')"

subsection \<open>Queries and row updates\<close>

definition get_user_db :: "db \<Rightarrow> string \<Rightarrow> UserDB option" where
  "get_user_db d user_id = find (\<lambda>u. u_id u = user_id) (users d)"

definition get_request_db :: "db \<Rightarrow> string \<Rightarrow> RedemptionRequestDB option" where
  "get_request_db d request_id = find (\<lambda>r. r_id r = request_id) (redemption_requests d)"

text \<open>Flushing a changed object is \<^verbatim>\<open>UPDATE t SET ... WHERE id = :id\<close>.\<close>

definition store_user :: "UserDB \<Rightarrow> UserDB list \<Rightarrow> UserDB list" where
  "store_user u' us = map (\<lambda>u. if u_id u = u_id u' then u' else u) us"

definition store_request :: "RedemptionRequestDB \<Rightarrow> RedemptionRequestDB list \<Rightarrow> RedemptionRequestDB list" where
  "store_request r' rs = map (\<lambda>r. if r_id r = r_id r' then r' else r) rs"

definition to_comment_user :: "UserDB \<Rightarrow> CommentUser" where
  "to_comment_user u = \<lparr>cu_id = u_id u, cu_name = u_name u, cu_email = u_email u, cu_avatar = u_avatar u\<rparr>"

definition to_redemption_request :: "env \<Rightarrow> RedemptionRequestDB \<Rightarrow> CommentUser \<Rightarrow> RedemptionRequest" where
  "to_redemption_request e r user =
     \<lparr>q_id = r_id r, q_user = user, q_amount = r_amount r, q_paymentDetails = r_paymentDetails r,
      q_status = r_status r, q_requestedAt = isoformat e (r_requestedAt r),
      q_updatedAt = map_option (isoformat e) (r_updatedAt r), q_adminNotes = r_adminNotes r\<rparr>"

section \<open>Redemption workflow\<close>

text \<open>\<^verbatim>\<open>date_parser.parse(request.updatedAt) if request.updatedAt else None\<close>: an absent or
  empty string gives no date; the outer \<open>None\<close> is the parser raising.\<close>

definition parse_optional :: "env \<Rightarrow> string option \<Rightarrow> datetime option option" where
  "parse_optional e s =
     (case s of None \<Rightarrow> Some None
      | Some t \<Rightarrow> if t = [] then Some None else map_option Some (date_parse e t))"

definition add_redemption_request :: "env \<Rightarrow> db \<Rightarrow> RedemptionRequest \<Rightarrow> error + (db \<times> RedemptionRequest)" where
  "add_redemption_request e d request =
     (case date_parse e (q_requestedAt request) of
        None \<Rightarrow> Inl ParserError
      | Some requestedAt \<Rightarrow>
        (case parse_optional e (q_updatedAt request) of
           None \<Rightarrow> Inl ParserError
         | Some updatedAt \<Rightarrow>
           let request_db = \<lparr>r_id = q_id request, r_user_id = cu_id (q_user request),
                             r_amount = q_amount request, r_paymentDetails = q_paymentDetails request,
                             r_status = q_status request, r_requestedAt = requestedAt,
                             r_updatedAt = updatedAt, r_adminNotes = q_adminNotes request\<rparr>
           in if \<not> int64 (q_amount request) then Inl OverflowError
              else if q_id request \<in> set (map r_id (redemption_requests d)) then Inl IntegrityError
              else let d' = d\<lparr>redemption_requests := redemption_requests d @ [request_db]\<rparr>
                   in (case get_request_db d' (q_id request) of
                         None \<Rightarrow> Inr (d', request)
                       | Some reloaded \<Rightarrow>
                         (case get_user_db d' (r_user_id reloaded) of
                            None \<Rightarrow> Inr (d', request)
                          | Some user_db \<Rightarrow>
                              Inr (d', to_redemption_request e reloaded (to_comment_user user_db))))))"

text \<open>\<^verbatim>\<open>request_data\<close> is a \<^verbatim>\<open>Dict[str, str]\<close>; \<^verbatim>\<open>request_data.get(k, default)\<close> reads it.\<close>

definition dict_get :: "(string \<rightharpoonup> string) \<Rightarrow> string \<Rightarrow> string \<Rightarrow> string" where
  "dict_get request_data k dflt = (case request_data k of None \<Rightarrow> dflt | Some v \<Rightarrow> v)"

text \<open>The tail of \<^verbatim>\<open>update_redemption_request_status\<close>: the three assignments to the request,
  the commit and the response.  \<open>d\<close> already holds the balance change, if any.\<close>

definition write_status :: "env \<Rightarrow> RedemptionRequestDB \<Rightarrow> string \<Rightarrow> (string \<rightharpoonup> string) \<Rightarrow> RedemptionRequestDB" where
  "write_status e request_db new_status request_data =
     request_db\<lparr>r_status := new_status,
                r_adminNotes := (case request_data ''adminNotes'' of
                                   None \<Rightarrow> r_adminNotes request_db | Some n \<Rightarrow> Some n),
                r_updatedAt := Some (now e)\<rparr>"

definition commit_status :: "env \<Rightarrow> db \<Rightarrow> RedemptionRequestDB \<Rightarrow> string \<Rightarrow> (string \<rightharpoonup> string)
    \<Rightarrow> error + (db \<times> RedemptionRequest)" where
  "commit_status e d request_db new_status request_data =
     (let request_db' = write_status e request_db new_status request_data;
          d' = d\<lparr>redemption_requests := store_request request_db' (redemption_requests d)\<rparr>
      in case get_user_db d' (r_user_id request_db') of
           None \<Rightarrow> Inl AttributeError
         | Some owner \<Rightarrow> Inr (d', to_redemption_request e request_db' (to_comment_user owner)))"

definition update_redemption_request_status :: "env \<Rightarrow> db \<Rightarrow> string \<Rightarrow> (string \<rightharpoonup> string)
    \<Rightarrow> error + (db \<times> RedemptionRequest)" where
  "update_redemption_request_status e d request_id request_data =
     (case get_request_db d request_id of
        None \<Rightarrow> Inl (HTTPException 404 Request_not_found)
      | Some request_db \<Rightarrow>
        (case get_user_db d (r_user_id request_db) of
           None \<Rightarrow> Inl (HTTPException 404 User_not_found_for_this_request)
         | Some owner \<Rightarrow>
           let new_status = dict_get request_data ''status'' (r_status request_db);
               old_status = r_status request_db
           in if new_status = ''processed'' \<and> old_status \<noteq> ''processed'' then
                (case get_user_db d (r_user_id request_db) of
                   None \<Rightarrow> Inl (HTTPException 404 User_account_not_found)
                 | Some user_db \<Rightarrow>
                     if u_coins user_db < r_amount request_db then
                       Inl (HTTPException 400 (Not_enough_coins (u_coins user_db) (r_amount request_db)))
                     else if \<not> bind_ok (u_coins user_db) (u_coins user_db - r_amount request_db) then
                       Inl OverflowError
                     else commit_status e
                            (d\<lparr>users := store_user (user_db\<lparr>u_coins := u_coins user_db - r_amount request_db\<rparr>) (users d)\<rparr>)
                            request_db new_status request_data)
              else if old_status = ''processed'' \<and> new_status \<noteq> ''processed'' then
                (case get_user_db d (r_user_id request_db) of
                   None \<Rightarrow> commit_status e d request_db new_status request_data
                 | Some user_db \<Rightarrow>
                     if \<not> bind_ok (u_coins user_db) (u_coins user_db + r_amount request_db) then
                       Inl OverflowError
                     else commit_status e
                            (d\<lparr>users := store_user (user_db\<lparr>u_coins := u_coins user_db + r_amount request_db\<rparr>) (users d)\<rparr>)
                            request_db new_status request_data)
              else commit_status e d request_db new_status request_data))"

section \<open>Reward sources\<close>

definition db_to_user :: "env \<Rightarrow> UserDB \<Rightarrow> User" where
  "db_to_user e user_db =
     \<lparr>p_id = u_id user_db, p_name = u_name user_db, p_email = u_email user_db,
      p_password = u_password user_db, p_avatar = u_avatar user_db, p_isAdmin = u_isAdmin user_db,
      p_coins = u_coins user_db, p_dailyAttempts = u_dailyAttempts user_db,
      p_lastAttemptDate = isoformat e (u_lastAttemptDate user_db), p_isBanned = u_isBanned user_db,
      p_mobile = u_mobile user_db, p_gender = u_gender user_db, p_bio = u_bio user_db,
      p_specializations = u_specializations user_db, p_referralCode = u_referralCode user_db,
      p_referredBy = u_referredBy user_db\<rparr>"

definition to_poll_option :: "PollOptionDB \<Rightarrow> PollOption" where
  "to_poll_option opt = \<lparr>po_id = o_id opt, po_text = o_text opt, po_imageUrl = o_imageUrl opt,
                         po_votes = o_votes opt, po_votedBy = o_votedBy opt\<rparr>"

text \<open>A list comprehension or loop over calls that may raise: the first exception, in the
  order of the list, ends it.\<close>

primrec collect :: "(error + 'a) list \<Rightarrow> error + 'a list" where
  "collect [] = Inr []"
| "collect (x # xs) =
     (case x of
        Inl err \<Rightarrow> Inl err
      | Inr v \<Rightarrow> (case collect xs of Inl err \<Rightarrow> Inl err | Inr vs \<Rightarrow> Inr (v # vs)))"

text \<open>
  \<^verbatim>\<open>build_comments\<close>, the closure of \<^verbatim>\<open>db_to_poll\<close>.  It reads \<^verbatim>\<open>comment_db.user.id\<close>
  first: the relationship is \<^verbatim>\<open>None\<close> when no user row has the comment's \<open>user_id\<close>, and
  the read raises \<open>AttributeError\<close>.  Then it calls itself on every row whose \<open>parent_id\<close>
  is this comment's id.  Rows can form a cycle (a reply stored under its own id as parent),
  so the recursion is bounded by the interpreter: the third argument is the number of
  nested calls still allowed.
\<close>

fun build_comments :: "env \<Rightarrow> db \<Rightarrow> nat \<Rightarrow> CommentDB \<Rightarrow> error + Comment" where
  "build_comments e d 0 comment_db = Inl RecursionError"
| "build_comments e d (Suc depth) comment_db =
     (case get_user_db d (c_user_id comment_db) of
        None \<Rightarrow> Inl AttributeError
      | Some user_db \<Rightarrow>
        (case collect (map (build_comments e d depth)
                         (filter (\<lambda>r. c_parent_id r = Some (c_id comment_db)) (comments d))) of
           Inl err \<Rightarrow> Inl err
         | Inr replies \<Rightarrow>
             Inr (Comment (c_id comment_db) (to_comment_user user_db) (c_text comment_db)
                    (c_audio_url comment_db) (isoformat e (c_timestamp comment_db))
                    (c_likes comment_db) replies (c_flaggedForReview comment_db)
                    (c_reviewReason comment_db))))"

definition db_to_poll :: "env \<Rightarrow> PollDB \<Rightarrow> db \<Rightarrow> error + Poll" where
  "db_to_poll e poll_db d =
     (let options = map to_poll_option (filter (\<lambda>opt. o_poll_id opt = pl_id poll_db) (poll_options d));
          top_comments = filter (\<lambda>c. c_poll_id c = pl_id poll_db \<and> c_parent_id c = None) (comments d)
      in case collect (map (build_comments e d (recursion_limit e)) top_comments) of
           Inl err \<Rightarrow> Inl err
         | Inr cs \<Rightarrow>
             Inr \<lparr>pv_id = pl_id poll_db, pv_title = pl_title poll_db,
                  pv_description = pl_description poll_db, pv_category = pl_category poll_db,
                  pv_thumbnail = pl_thumbnail poll_db, pv_options = options, pv_comments = cs,
                  pv_createdAt = isoformat e (pl_createdAt poll_db),
                  pv_disableVoiceComments = pl_disableVoiceComments poll_db\<rparr>)"

definition get_poll_db :: "db \<Rightarrow> string \<Rightarrow> PollDB option" where
  "get_poll_db d poll_id = find (\<lambda>p. pl_id p = poll_id) (polls d)"

definition get_option_db :: "db \<Rightarrow> string \<Rightarrow> string \<Rightarrow> PollOptionDB option" where
  "get_option_db d option_id poll_id =
     find (\<lambda>opt. o_id opt = option_id \<and> o_poll_id opt = poll_id) (poll_options d)"

definition store_option :: "PollOptionDB \<Rightarrow> PollOptionDB list \<Rightarrow> PollOptionDB list" where
  "store_option opt' os = map (\<lambda>opt. if o_id opt = o_id opt' then opt' else opt) os"

text \<open>
  \<^verbatim>\<open>add_vote\<close> gives the database it leaves and its answer.  A repeated vote returns
  \<^verbatim>\<open>db_to_poll(poll_db, db)\<close> before anything is assigned.  Otherwise the commit writes
  the option and, if a user row has the voter's id, its balance; \<^verbatim>\<open>db_to_poll\<close> runs after
  the commit, so when it raises the vote is stored all the same.
\<close>

definition add_vote :: "env \<Rightarrow> db \<Rightarrow> string \<Rightarrow> string \<Rightarrow> string \<Rightarrow> db \<times> (error + Poll)" where
  "add_vote e d poll_id option_id user_id =
     (case get_poll_db d poll_id of
        None \<Rightarrow> (d, Inl (HTTPException 404 Poll_not_found))
      | Some poll_db \<Rightarrow>
        (case get_option_db d option_id poll_id of
           None \<Rightarrow> (d, Inl (HTTPException 404 Option_not_found))
         | Some opt_db \<Rightarrow>
           if user_id \<in> set (o_votedBy opt_db) then (d, db_to_poll e poll_db d)
           else
             let votedBy = o_votedBy opt_db @ [user_id];
                 opt_db' = opt_db\<lparr>o_votes := o_votes opt_db + 1, o_votedBy := votedBy\<rparr>;
                 d1 = d\<lparr>poll_options := store_option opt_db' (poll_options d)\<rparr>;
                 d2 = (case get_user_db d user_id of
                         None \<Rightarrow> d1
                       | Some user_db \<Rightarrow>
                           d1\<lparr>users := store_user (user_db\<lparr>u_coins := u_coins user_db + 1\<rparr>) (users d1)\<rparr>);
                 fits = (bind_ok (o_votes opt_db) (o_votes opt_db + 1)
                         \<and> (case get_user_db d user_id of
                               None \<Rightarrow> True
                             | Some user_db \<Rightarrow> bind_ok (u_coins user_db) (u_coins user_db + 1)))
             in if fits then (d2, db_to_poll e poll_db d2) else (d, Inl OverflowError)))"

subsection \<open>Rewarded ads\<close>

definition get_ads_row :: "db \<Rightarrow> string \<Rightarrow> string \<Rightarrow> AdsStatsDB option" where
  "get_ads_row d user_id date_str =
     find (\<lambda>row. a_user_id row = user_id \<and> a_date row = date_str) (ads_stats d)"

definition store_ads_row :: "AdsStatsDB \<Rightarrow> AdsStatsDB list \<Rightarrow> AdsStatsDB list" where
  "store_ads_row row' rows = map (\<lambda>row. if a_id row = a_id row' then row' else row) rows"

text \<open>The autoincremented key of a new \<^verbatim>\<open>ads_stats\<close> row: one more than the largest in use.\<close>

definition next_ads_id :: "AdsStatsDB list \<Rightarrow> nat" where
  "next_ads_id rows = Suc (fold max (map a_id rows) 0)"

text \<open>
  The \<^verbatim>\<open>try\<close> block of \<^verbatim>\<open>post_ads_reward\<close> holds the assignments and the commit.  What
  can raise in it is the commit, when the new balance or a counter of the day's row does
  not fit its column; the \<^verbatim>\<open>except\<close> branch rolls back and raises HTTP 500.
\<close>

definition post_ads_reward :: "env \<Rightarrow> db \<Rightarrow> RewardBody \<Rightarrow> error + (db \<times> User \<times> AdsStats)" where
  "post_ads_reward e d body =
     (case get_user_db d (rb_userId body) of
        None \<Rightarrow> Inl (HTTPException 404 User_not_found)
      | Some user_db \<Rightarrow>
        let date_str = today_ist_date_str e;
            before = u_coins user_db;
            grant = max 0 (rb_amount body);
            user_db' = user_db\<lparr>u_coins := before + grant\<rparr>;
            d1 = d\<lparr>users := store_user user_db' (users d)\<rparr>;
            row' = (case get_ads_row d (rb_userId body) date_str of
                      None \<Rightarrow> \<lparr>a_id = next_ads_id (ads_stats d), a_user_id = rb_userId body,
                                a_date = date_str, a_watched = (if grant > 0 then 1 else 0),
                                a_coins = grant\<rparr>
                    | Some row \<Rightarrow> row\<lparr>a_watched := a_watched row + (if grant > 0 then 1 else 0),
                                       a_coins := a_coins row + grant\<rparr>);
            d2 = (case get_ads_row d (rb_userId body) date_str of
                    None \<Rightarrow> d1\<lparr>ads_stats := ads_stats d1 @ [row']\<rparr>
                  | Some row \<Rightarrow> d1\<lparr>ads_stats := store_ads_row row' (ads_stats d1)\<rparr>);
            fits = (bind_ok before (before + grant)
                    \<and> (case get_ads_row d (rb_userId body) date_str of
                          None \<Rightarrow> int64 (a_watched row') \<and> int64 (a_coins row')
                        | Some row \<Rightarrow> bind_ok (a_watched row) (a_watched row')
                                       \<and> bind_ok (a_coins row) (a_coins row')))
        in if \<not> fits then Inl (HTTPException 500 Failed_to_grant_reward)
           else (case get_ads_row d2 (rb_userId body) date_str of
                   None \<Rightarrow> Inl AttributeError
                 | Some row \<Rightarrow>
                     Inr (d2, db_to_user e user_db',
                          \<lparr>s_userId = rb_userId body, s_date = date_str,
                           s_watched = a_watched row, s_coins = a_coins row\<rparr>)))"

subsection \<open>Settings and referral\<close>

definition get_setting :: "db \<Rightarrow> string \<Rightarrow> string option \<Rightarrow> string option" where
  "get_setting d key dflt =
     (case find (\<lambda>s. fst s = key) (settings d) of None \<Rightarrow> dflt | Some s \<Rightarrow> Some (snd s))"

definition set_setting :: "db \<Rightarrow> string \<Rightarrow> string \<Rightarrow> db" where
  "set_setting d key val =
     (case find (\<lambda>s. fst s = key) (settings d) of
        Some s \<Rightarrow> d\<lparr>settings := map (\<lambda>s. if fst s = key then (key, val) else s) (settings d)\<rparr>
      | None \<Rightarrow> d\<lparr>settings := settings d @ [(key, val)]\<rparr>)"

text \<open>\<^verbatim>\<open>str(body.coinValueINR)\<close> of a float is taken as the string it gives.\<close>

definition put_coin_value :: "db \<Rightarrow> string \<Rightarrow> error + (db \<times> unit)" where
  "put_coin_value d coin_value_str = Inr (set_setting d ''coinValueINR'' coin_value_str, ())"

definition int_setting :: "env \<Rightarrow> string option \<Rightarrow> int \<Rightarrow> int" where
  "int_setting e val dflt =
     (case val of None \<Rightarrow> dflt
      | Some s \<Rightarrow> (case py_int e s of None \<Rightarrow> dflt | Some i \<Rightarrow> i))"

definition get_referral_rewards :: "env \<Rightarrow> db \<Rightarrow> ReferralRewardsBody" where
  "get_referral_rewards e d =
     (let referrer = get_setting d ''referralReferrerCoins'' (Some ''15'');
          referee = get_setting d ''referralRefereeCoins'' (Some ''5'')
      in \<lparr>rr_referrerCoins = int_setting e referrer 15, rr_refereeCoins = int_setting e referee 5\<rparr>)"

definition put_referral_rewards :: "env \<Rightarrow> db \<Rightarrow> ReferralRewardsBody \<Rightarrow> error + (db \<times> unit)" where
  "put_referral_rewards e d body =
     Inr (set_setting (set_setting d ''referralReferrerCoins'' (py_str e (rr_referrerCoins body)))
            ''referralRefereeCoins'' (py_str e (rr_refereeCoins body)), ())"

text \<open>\<^verbatim>\<open>if joiner.referredBy\<close> is Python truthiness: \<^verbatim>\<open>None\<close> and the empty string are false.
  The \<^verbatim>\<open>try\<close> block holds the three assignments and the commit; the commit raises when a
  new balance does not fit its column, and the \<^verbatim>\<open>except\<close> branch rolls back and raises
  HTTP 500.\<close>

definition truthy :: "string option \<Rightarrow> bool" where
  "truthy s = (case s of None \<Rightarrow> False | Some t \<Rightarrow> t \<noteq> [])"

definition apply_referral :: "env \<Rightarrow> db \<Rightarrow> ApplyReferralBody \<Rightarrow> error + (db \<times> User \<times> User)" where
  "apply_referral e d body =
     (case get_user_db d (ab_joinerUserId body) of
        None \<Rightarrow> Inl (HTTPException 404 Joiner_user_not_found)
      | Some joiner \<Rightarrow>
        if truthy (u_referredBy joiner) then Inl (HTTPException 400 Referral_already_applied)
        else
          (case find (\<lambda>u. u_referralCode u = Some (ab_referralCode body)) (users d) of
             None \<Rightarrow> Inl (HTTPException 404 Invalid_referral_code)
           | Some referrer \<Rightarrow>
             if u_id referrer = u_id joiner then Inl (HTTPException 400 Cannot_refer_yourself)
             else
               let rewards = get_referral_rewards e d;
                   referrer_reward = rr_referrerCoins rewards;
                   referee_reward = rr_refereeCoins rewards;
                   joiner' = joiner\<lparr>u_coins := u_coins joiner + referee_reward,
                                    u_referredBy := Some (u_id referrer)\<rparr>;
                   referrer' = referrer\<lparr>u_coins := u_coins referrer + referrer_reward\<rparr>;
                   d' = d\<lparr>users := store_user referrer' (store_user joiner' (users d))\<rparr>;
                   fits = (bind_ok (u_coins joiner) (u_coins joiner + referee_reward)
                           \<and> bind_ok (u_coins referrer) (u_coins referrer + referrer_reward))
               in if \<not> fits then Inl (HTTPException 500 Failed_to_apply_referral)
                  else Inr (d', db_to_user e referrer', db_to_user e joiner')))"

subsection \<open>Accounts\<close>

text \<open>\<^verbatim>\<open>json.dumps(user.specializations) if user.specializations else None\<close>: an empty list is
  stored as NULL.\<close>

definition dump_specializations :: "string list option \<Rightarrow> string list option" where
  "dump_specializations sp = (case sp of None \<Rightarrow> None | Some xs \<Rightarrow> if xs = [] then None else Some xs)"

text \<open>The unique columns of \<^verbatim>\<open>users\<close>: \<^verbatim>\<open>id\<close> (primary key), \<^verbatim>\<open>email\<close> and
  \<^verbatim>\<open>referralCode\<close> (NULLs do not collide).  \<open>clashes u others\<close> says that writing \<open>u\<close> beside
  the rows \<open>others\<close> violates one of them.\<close>

definition clashes :: "UserDB \<Rightarrow> UserDB list \<Rightarrow> bool" where
  "clashes u others =
     list_ex (\<lambda>v. u_id v = u_id u \<or> u_email v = u_email u
                  \<or> (u_referralCode u \<noteq> None \<and> u_referralCode v = u_referralCode u)) others"

definition signup :: "env \<Rightarrow> db \<Rightarrow> User \<Rightarrow> error + (db \<times> User)" where
  "signup e d user =
     (case find (\<lambda>u. u_email u = p_email user) (users d) of
        Some existing \<Rightarrow> Inl (HTTPException 400 Email_already_exists)
      | None \<Rightarrow>
        (case date_parse e (p_lastAttemptDate user) of
           None \<Rightarrow> Inl ParserError
         | Some lastAttemptDate \<Rightarrow>
           let user_db = \<lparr>u_id = p_id user, u_name = p_name user, u_email = p_email user,
                          u_password = p_password user, u_avatar = p_avatar user,
                          u_isAdmin = p_isAdmin user, u_coins = p_coins user,
                          u_dailyAttempts = p_dailyAttempts user, u_lastAttemptDate = lastAttemptDate,
                          u_isBanned = p_isBanned user, u_mobile = p_mobile user,
                          u_gender = p_gender user, u_bio = p_bio user,
                          u_specializations = dump_specializations (p_specializations user),
                          u_referralCode = p_referralCode user, u_referredBy = p_referredBy user\<rparr>
           in if \<not> (int64 (p_coins user) \<and> int64 (p_dailyAttempts user)) then Inl OverflowError
              else if clashes user_db (users d) then Inl IntegrityError
              else Inr (d\<lparr>users := users d @ [user_db]\<rparr>, db_to_user e user_db)))"

definition increment_user_coins :: "db \<Rightarrow> string \<Rightarrow> int \<Rightarrow> error + (db \<times> int)" where
  "increment_user_coins d user_id amount =
     (if amount < 1 then Inl RequestValidationError
      else case get_user_db d user_id of
             None \<Rightarrow> Inl (HTTPException 404 User_not_found)
           | Some user_db \<Rightarrow>
             let before = u_coins user_db; after = before + amount
             in if \<not> bind_ok before after then Inl OverflowError
                else Inr (d\<lparr>users := store_user (user_db\<lparr>u_coins := after\<rparr>) (users d)\<rparr>, after))"

definition decrement_user_coins :: "db \<Rightarrow> string \<Rightarrow> int \<Rightarrow> error + (db \<times> int)" where
  "decrement_user_coins d user_id amount =
     (if amount < 1 then Inl RequestValidationError
      else case get_user_db d user_id of
             None \<Rightarrow> Inl (HTTPException 404 User_not_found)
           | Some user_db \<Rightarrow>
             let before = u_coins user_db
             in if before < amount then Inl (HTTPException 400 (Insufficient_coins before amount))
                else let after = before - amount
                     in if \<not> bind_ok before after then Inl OverflowError
                        else Inr (d\<lparr>users := store_user (user_db\<lparr>u_coins := after\<rparr>) (users d)\<rparr>, after))"

text \<open>The assignments of \<^verbatim>\<open>update_user\<close> to the loaded row, in the order of the source.  There is
  none to \<^verbatim>\<open>coins\<close>: "Do NOT set coins from client payload to avoid overwriting server-side
  balance".\<close>

definition assign_profile :: "UserDB \<Rightarrow> User \<Rightarrow> datetime \<Rightarrow> UserDB" where
  "assign_profile user_db user lastAttemptDate =
     user_db\<lparr>u_name := p_name user, u_email := p_email user,
             u_password := p_password user, u_avatar := p_avatar user,
             u_isAdmin := p_isAdmin user,
             u_dailyAttempts := p_dailyAttempts user,
             u_lastAttemptDate := lastAttemptDate,
             u_isBanned := p_isBanned user, u_mobile := p_mobile user,
             u_gender := p_gender user, u_bio := p_bio user,
             u_specializations := dump_specializations (p_specializations user),
             u_referralCode := p_referralCode user,
             u_referredBy := p_referredBy user\<rparr>"

definition update_user :: "env \<Rightarrow> db \<Rightarrow> string \<Rightarrow> User \<Rightarrow> error + (db \<times> User)" where
  "update_user e d user_id user =
     (case get_user_db d user_id of
        None \<Rightarrow> Inl (HTTPException 404 User_not_found)
      | Some user_db \<Rightarrow>
        (case date_parse e (p_lastAttemptDate user) of
           None \<Rightarrow> Inl ParserError
         | Some lastAttemptDate \<Rightarrow>
           let user_db' = assign_profile user_db user lastAttemptDate
           in if \<not> bind_ok (u_dailyAttempts user_db) (p_dailyAttempts user) then Inl OverflowError
              else if clashes user_db' (filter (\<lambda>v. u_id v \<noteq> user_id) (users d)) then Inl IntegrityError
              else Inr (d\<lparr>users := store_user user_db' (users d)\<rparr>, db_to_user e user_db')))"

subsection \<open>Game results\<close>

definition save_game_result :: "env \<Rightarrow> db \<Rightarrow> GameResult \<Rightarrow> error + (db \<times> GameResult)" where
  "save_game_result e d game_result =
     (case date_parse e (g_playedAt game_result) of
        None \<Rightarrow> Inl ParserError
      | Some playedAt \<Rightarrow>
        let game_result_db = \<lparr>gr_id = g_id game_result, gr_user_id = cu_id (g_user game_result),
                              gr_targetTime = g_targetTime game_result,
                              gr_actualTime = g_actualTime game_result,
                              gr_accuracy = g_accuracy game_result,
                              gr_coinsWon = g_coinsWon game_result, gr_playedAt = playedAt\<rparr>;
            d1 = d\<lparr>game_results := game_results d @ [game_result_db]\<rparr>;
            d2 = (if g_coinsWon game_result > 0 then
                    (case get_user_db d (cu_id (g_user game_result)) of
                       None \<Rightarrow> d1
                     | Some user_db \<Rightarrow>
                         let before = u_coins user_db; after = before + g_coinsWon game_result
                         in d1\<lparr>users := store_user (user_db\<lparr>u_coins := after\<rparr>) (users d1)\<rparr>)
                  else d1);
            fits = (int64 (g_coinsWon game_result)
                    \<and> (if g_coinsWon game_result > 0 then
                          (case get_user_db d (cu_id (g_user game_result)) of
                             None \<Rightarrow> True
                           | Some user_db \<Rightarrow>
                               bind_ok (u_coins user_db) (u_coins user_db + g_coinsWon game_result))
                        else True))
        in if \<not> fits then Inl OverflowError
           else if g_id game_result \<in> set (map gr_id (game_results d)) then Inl IntegrityError
           else Inr (d2, game_result))"

section \<open>The API as one step function\<close>

datatype op =
    Vote string string string
  | AdsReward RewardBody
  | ApplyReferral ApplyReferralBody
  | SaveGameResult GameResult
  | IncrementCoins string int
  | DecrementCoins string int
  | AddRedemptionRequest RedemptionRequest
  | UpdateRedemptionStatus string "string \<rightharpoonup> string"
  | Signup User
  | UpdateUser string User
  | PutCoinValue string
  | PutReferralRewards ReferralRewardsBody

fun api_step :: "env \<Rightarrow> db \<Rightarrow> op \<Rightarrow> db" where
  "api_step e d (Vote poll_id option_id user_id) = fst (add_vote e d poll_id option_id user_id)"
| "api_step e d (AdsReward body) = db_after d (post_ads_reward e d body)"
| "api_step e d (ApplyReferral body) = db_after d (apply_referral e d body)"
| "api_step e d (SaveGameResult game_result) = db_after d (save_game_result e d game_result)"
| "api_step e d (IncrementCoins user_id amount) = db_after d (increment_user_coins d user_id amount)"
| "api_step e d (DecrementCoins user_id amount) = db_after d (decrement_user_coins d user_id amount)"
| "api_step e d (AddRedemptionRequest request) = db_after d (add_redemption_request e d request)"
| "api_step e d (UpdateRedemptionStatus request_id request_data) =
     db_after d (update_redemption_request_status e d request_id request_data)"
| "api_step e d (Signup user) = db_after d (signup e d user)"
| "api_step e d (UpdateUser user_id user) = db_after d (update_user e d user_id user)"
| "api_step e d (PutCoinValue coin_value_str) = db_after d (put_coin_value d coin_value_str)"
| "api_step e d (PutReferralRewards body) = db_after d (put_referral_rewards e d body)"

section \<open>Balances\<close>

text \<open>The balance of every stored user, in table order, and the invariant that none is
  negative.\<close>

definition balances :: "db \<Rightarrow> (string \<times> int) list" where
  "balances d = map (\<lambda>u. (u_id u, u_coins u)) (users d)"

definition balances_nonneg :: "db \<Rightarrow> bool" where
  "balances_nonneg d \<longleftrightarrow> list_all (\<lambda>u. 0 \<le> u_coins u) (users d)"

section \<open>A small database for concrete instances\<close>

definition env0 :: env where
  "env0 = \<lparr>now = 100, today_ist_date_str = ''2024-01-01'', date_parse = (\<lambda>s. Some 50),
            isoformat = (\<lambda>t. ''T''), py_int = (\<lambda>s. if s = ''-3'' then Some (- 3) else None),
            py_str = (\<lambda>i. ''n''), recursion_limit = 50\<rparr>"

definition alice :: UserDB where
  "alice = \<lparr>u_id = ''u1'', u_name = ''Alice'', u_email = ''a@x'', u_password = ''pw'',
             u_avatar = ''av'', u_isAdmin = False, u_coins = 10, u_dailyAttempts = 3,
             u_lastAttemptDate = 0, u_isBanned = False, u_mobile = None, u_gender = None,
             u_bio = None, u_specializations = None, u_referralCode = Some ''ALICE'',
             u_referredBy = Some ''u2''\<rparr>"

definition bob :: UserDB where
  "bob = \<lparr>u_id = ''u2'', u_name = ''Bob'', u_email = ''b@x'', u_password = ''pw'',
           u_avatar = ''av'', u_isAdmin = False, u_coins = 0, u_dailyAttempts = 3,
           u_lastAttemptDate = 0, u_isBanned = False, u_mobile = None, u_gender = None,
           u_bio = None, u_specializations = None, u_referralCode = Some ''BOB'',
           u_referredBy = None\<rparr>"

definition poll1 :: PollDB where
  "poll1 = \<lparr>pl_id = ''p1'', pl_title = ''t'', pl_description = ''d'', pl_category = ''c'',
             pl_thumbnail = ''th'', pl_createdAt = 0, pl_disableVoiceComments = False\<rparr>"

definition opt1 :: PollOptionDB where
  "opt1 = \<lparr>o_id = ''o1'', o_poll_id = ''p1'', o_text = ''yes'', o_imageUrl = ''i'',
            o_votes = 1, o_votedBy = [''u1'']\<rparr>"

definition req1 :: RedemptionRequestDB where
  "req1 = \<lparr>r_id = ''r1'', r_user_id = ''u1'', r_amount = 6, r_paymentDetails = ''upi'',
            r_status = ''pending'', r_requestedAt = 0, r_updatedAt = None, r_adminNotes = None\<rparr>"

definition req2 :: RedemptionRequestDB where
  "req2 = \<lparr>r_id = ''r2'', r_user_id = ''u2'', r_amount = 6, r_paymentDetails = ''upi'',
            r_status = ''pending'', r_requestedAt = 0, r_updatedAt = None, r_adminNotes = None\<rparr>"

definition ads1 :: AdsStatsDB where
  "ads1 = \<lparr>a_id = 1, a_user_id = ''u1'', a_date = ''2024-01-01'', a_watched = 1, a_coins = 5\<rparr>"

definition db0 :: db where
  "db0 = \<lparr>users = [alice, bob], polls = [poll1], poll_options = [opt1], comments = [],
           redemption_requests = [req1, req2], game_results = [], settings = [],
           ads_stats = [ads1]\<rparr>"

definition rq_processed :: RedemptionRequest where
  "rq_processed = \<lparr>q_id = ''r3'', q_user = \<lparr>cu_id = ''u1'', cu_name = ''Alice'', cu_email = ''a@x'',
                    cu_avatar = ''av''\<rparr>, q_amount = 6, q_paymentDetails = ''upi'',
                    q_status = ''processed'', q_requestedAt = ''2024-01-01T10:00:00'',
                    q_updatedAt = None, q_adminNotes = None\<rparr>"

definition profile1 :: User where
  "profile1 = \<lparr>p_id = ''u1'', p_name = ''Alicia'', p_email = ''a@x'', p_password = ''pw2'',
                p_avatar = ''av'', p_isAdmin = False, p_coins = 999, p_dailyAttempts = 3,
                p_lastAttemptDate = ''2024-01-01T10:00:00'', p_isBanned = False, p_mobile = None,
                p_gender = None, p_bio = None, p_specializations = None,
                p_referralCode = Some ''ALICE'', p_referredBy = Some ''u9''\<rparr>"

definition profile_neg :: User where
  "profile_neg = \<lparr>p_id = ''u3'', p_name = ''Carol'', p_email = ''c@x'', p_password = ''pw'',
                   p_avatar = ''av'', p_isAdmin = False, p_coins = - 1, p_dailyAttempts = 3,
                   p_lastAttemptDate = ''2024-01-01T10:00:00'', p_isBanned = False,
                   p_mobile = None, p_gender = None, p_bio = None, p_specializations = None,
                   p_referralCode = None, p_referredBy = None\<rparr>"

text \<open>\<open>db0\<close> after \<^verbatim>\<open>PUT /settings/referral-rewards\<close> stored a referee reward of -3.\<close>

definition db_neg_reward :: db where
  "db_neg_reward = db0\<lparr>settings := [(''referralRefereeCoins'', ''-3'')]\<rparr>"

text \<open>\<open>db0\<close> with one request of Bob's, created with amount -5 and status \<open>processed\<close>.\<close>

definition db_neg_amount :: db where
  "db_neg_amount = db0\<lparr>redemption_requests :=
      [\<lparr>r_id = ''r4'', r_user_id = ''u2'', r_amount = - 5, r_paymentDetails = ''upi'',
        r_status = ''processed'', r_requestedAt = 0, r_updatedAt = None, r_adminNotes = None\<rparr>]\<rparr>"

text \<open>\<open>db0\<close> with a comment on the poll whose author's row is gone (\<^verbatim>\<open>add_comment\<close>, then
  \<^verbatim>\<open>delete_user\<close>).\<close>

definition comment1 :: CommentDB where
  "comment1 = \<lparr>c_id = ''c1'', c_poll_id = ''p1'', c_user_id = ''gone'', c_text = ''hi'',
                c_audio_url = None, c_timestamp = 0, c_likes = 0, c_likedBy = [],
                c_parent_id = None, c_flaggedForReview = False, c_reviewReason = None\<rparr>"

definition db_orphan :: db where
  "db_orphan = db0\<lparr>comments := [comment1]\<rparr>"

text \<open>\<open>db0\<close> with the option's counter at the largest value of its column.\<close>

definition db_max_votes :: db where
  "db_max_votes = db0\<lparr>poll_options := [opt1\<lparr>o_votes := 9223372036854775807\<rparr>]\<rparr>"

text \<open>\<open>db0\<close> with Alice's balance at the largest value of its column.\<close>

definition db_max_coins :: db where
  "db_max_coins = db0\<lparr>users := [alice\<lparr>u_coins := 9223372036854775807\<rparr>, bob]\<rparr>"

lemmas fixture_defs = env0_def alice_def bob_def poll1_def opt1_def req1_def req2_def ads1_def db0_def

section \<open>The range of an integer column\<close>

lemma int64_sub: "int64 c \<Longrightarrow> 0 \<le> a \<Longrightarrow> a \<le> c \<Longrightarrow> int64 (c - a)"
  by (simp add: int64_def)

lemma int64_bind_ok: "int64 new \<Longrightarrow> bind_ok old new"
  by (simp add: bind_ok_def)

section \<open>Lookups after a row is written\<close>

lemma find_store:
  "find P xs = Some x \<Longrightarrow> P x' \<Longrightarrow> key x = k \<Longrightarrow>
   find P (map (\<lambda>y. if key y = k then x' else y) xs) = Some x'"
  by (induction xs) (auto split: if_splits)

lemma find_store_none:
  "find P xs = None \<Longrightarrow> \<not> P x' \<Longrightarrow> find P (map (\<lambda>y. if key y = k then x' else y) xs) = None"
  by (induction xs) (auto split: if_splits)

lemma find_key: "find (\<lambda>y. key y = k) xs = Some x \<Longrightarrow> key x = k"
  by (induction xs) (auto split: if_splits)

lemma get_user_db_id: "get_user_db d k = Some u \<Longrightarrow> u_id u = k"
  unfolding get_user_db_def by (rule find_key)

lemma get_request_db_id: "get_request_db d k = Some r \<Longrightarrow> r_id r = k"
  unfolding get_request_db_def by (rule find_key)

lemma get_user_db_store:
  assumes "get_user_db d k = Some u" and "u_id u' = k" and "users d' = store_user u' (users d)"
  shows "get_user_db d' k = Some u'"
proof -
  have "find (\<lambda>u. u_id u = k) (users d) = Some u"
    using assms(1) by (simp only: get_user_db_def)
  moreover have "u_id u = k"
    using assms(1) by (rule get_user_db_id)
  ultimately have "find (\<lambda>u. u_id u = k) (map (\<lambda>y. if u_id y = k then u' else y) (users d)) = Some u'"
    using assms(2) by (simp only: find_store)
  then show ?thesis
    using assms(2,3) by (simp only: get_user_db_def store_user_def)
qed

lemma get_request_db_store:
  assumes "get_request_db d k = Some r" and "r_id r' = k"
    and "redemption_requests d' = store_request r' (redemption_requests d)"
  shows "get_request_db d' k = Some r'"
proof -
  have "find (\<lambda>r. r_id r = k) (redemption_requests d) = Some r"
    using assms(1) by (simp only: get_request_db_def)
  then have "find (\<lambda>r. r_id r = k) (map (\<lambda>y. if r_id y = k then r' else y) (redemption_requests d))
             = Some r'"
    using assms(2) get_request_db_id [OF assms(1)] by (simp only: find_store)
  then show ?thesis
    using assms(2,3) by (simp only: get_request_db_def store_request_def)
qed

lemma write_status_simps [simp]:
  "r_id (write_status e r s data) = r_id r"
  "r_user_id (write_status e r s data) = r_user_id r"
  "r_amount (write_status e r s data) = r_amount r"
  "r_status (write_status e r s data) = s"
  by (simp_all add: write_status_def)

lemma commit_status_ok:
  assumes req: "get_request_db d rid = Some r" and own: "get_user_db d (r_user_id r) = Some u"
  shows "commit_status e d r s data =
         Inr (d\<lparr>redemption_requests := store_request (write_status e r s data) (redemption_requests d)\<rparr>,
              to_redemption_request e (write_status e r s data) (to_comment_user u))"
  using own by (simp add: commit_status_def Let_def get_user_db_def)

section \<open>Crossing the processed boundary\<close>

lemma update_into_processed:
  assumes req: "get_request_db d rid = Some r" and own: "get_user_db d (r_user_id r) = Some u"
    and old: "r_status r \<noteq> ''processed''" and new: "data ''status'' = Some ''processed''"
    and suff: "r_amount r \<le> u_coins u"
    and fit: "bind_ok (u_coins u) (u_coins u - r_amount r)"
  shows "\<exists>d' x. update_redemption_request_status e d rid data = Inr (d', x)
           \<and> get_request_db d' rid = Some (write_status e r ''processed'' data)
           \<and> get_user_db d' (r_user_id r) = Some (u\<lparr>u_coins := u_coins u - r_amount r\<rparr>)"
proof -
  let ?u' = "u\<lparr>u_coins := u_coins u - r_amount r\<rparr>"
  let ?d1 = "d\<lparr>users := store_user ?u' (users d)\<rparr>"
  let ?r' = "write_status e r ''processed'' data"
  let ?d' = "?d1\<lparr>redemption_requests := store_request ?r' (redemption_requests ?d1)\<rparr>"
  have uid: "u_id u = r_user_id r" using own by (rule get_user_db_id)
  have rid: "r_id r = rid" using req by (rule get_request_db_id)
  have own1: "get_user_db ?d1 (r_user_id r) = Some ?u'"
    using own by (rule get_user_db_store) (simp_all add: uid)
  have req1: "get_request_db ?d1 rid = Some r"
    using req by (simp add: get_request_db_def)
  have run: "update_redemption_request_status e d rid data =
             Inr (?d', to_redemption_request e ?r' (to_comment_user ?u'))"
    using req own old new suff fit commit_status_ok [OF req1 own1, of e "''processed''" data]
    by (simp add: update_redemption_request_status_def dict_get_def Let_def)
  have own2: "get_user_db ?d' (r_user_id r) = Some ?u'"
    using own1 by (simp add: get_user_db_def)
  have req2: "get_request_db ?d' rid = Some ?r'"
    using req1 by (rule get_request_db_store) (simp_all add: rid)
  show ?thesis using run own2 req2 by blast
qed

lemma update_out_of_processed:
  assumes req: "get_request_db d rid = Some r" and own: "get_user_db d (r_user_id r) = Some u"
    and old: "r_status r = ''processed''" and new: "data ''status'' = Some s" and s: "s \<noteq> ''processed''"
    and fit: "bind_ok (u_coins u) (u_coins u + r_amount r)"
  shows "\<exists>d' x. update_redemption_request_status e d rid data = Inr (d', x)
           \<and> get_request_db d' rid = Some (write_status e r s data)
           \<and> get_user_db d' (r_user_id r) = Some (u\<lparr>u_coins := u_coins u + r_amount r\<rparr>)"
proof -
  let ?u' = "u\<lparr>u_coins := u_coins u + r_amount r\<rparr>"
  let ?d1 = "d\<lparr>users := store_user ?u' (users d)\<rparr>"
  let ?r' = "write_status e r s data"
  let ?d' = "?d1\<lparr>redemption_requests := store_request ?r' (redemption_requests ?d1)\<rparr>"
  have uid: "u_id u = r_user_id r" using own by (rule get_user_db_id)
  have rid: "r_id r = rid" using req by (rule get_request_db_id)
  have own1: "get_user_db ?d1 (r_user_id r) = Some ?u'"
    using own by (rule get_user_db_store) (simp_all add: uid)
  have req1: "get_request_db ?d1 rid = Some r"
    using req by (simp add: get_request_db_def)
  have run: "update_redemption_request_status e d rid data =
             Inr (?d', to_redemption_request e ?r' (to_comment_user ?u'))"
    using req own old new s fit commit_status_ok [OF req1 own1, of e s data]
    by (simp add: update_redemption_request_status_def dict_get_def Let_def)
  have own2: "get_user_db ?d' (r_user_id r) = Some ?u'"
    using own1 by (simp add: get_user_db_def)
  have req2: "get_request_db ?d' rid = Some ?r'"
    using req1 by (rule get_request_db_store) (simp_all add: rid)
  show ?thesis using run own2 req2 by blast
qed

lemma find_append_fresh:
  "k \<notin> set (map key xs) \<Longrightarrow> key y = k \<Longrightarrow> find (\<lambda>x. key x = k) (xs @ [y]) = Some y"
  by (induction xs) auto

lemma assign_profile_simps [simp]:
  "u_id (assign_profile u p t) = u_id u"
  "u_coins (assign_profile u p t) = u_coins u"
  "u_name (assign_profile u p t) = p_name p"
  "u_referredBy (assign_profile u p t) = p_referredBy p"
  by (simp_all add: assign_profile_def)

lemma db_to_user_coins [simp]: "p_coins (db_to_user e u) = u_coins u"
  by (simp add: db_to_user_def)

section \<open>Rendering a poll\<close>

lemma collect_error: "collect xs = Inl err \<Longrightarrow> Inl err \<in> set xs"
  by (induction xs) (auto split: sum.splits)

lemma build_comments_errors:
  "build_comments e d depth c = Inl err \<Longrightarrow> err = AttributeError \<or> err = RecursionError"
proof (induction depth arbitrary: c)
  case 0
  then show ?case by simp
next
  case (Suc depth)
  show ?case
  proof (cases "get_user_db d (c_user_id c)")
    case None
    then show ?thesis using Suc.prems by simp
  next
    case (Some user_db)
    let ?rs = "filter (\<lambda>r. c_parent_id r = Some (c_id c)) (comments d)"
    have "collect (map (build_comments e d depth) ?rs) = Inl err"
      using Suc.prems Some by (simp split: sum.splits)
    then have "Inl err \<in> set (map (build_comments e d depth) ?rs)" by (rule collect_error)
    then obtain r where "build_comments e d depth r = Inl err" by auto
    then show ?thesis by (rule Suc.IH)
  qed
qed

lemma db_to_poll_errors:
  assumes "db_to_poll e poll_db d = Inl err"
  shows "err = AttributeError \<or> err = RecursionError"
proof -
  let ?top = "filter (\<lambda>c. c_poll_id c = pl_id poll_db \<and> c_parent_id c = None) (comments d)"
  have "collect (map (build_comments e d (recursion_limit e)) ?top) = Inl err"
    using assms by (simp add: db_to_poll_def Let_def split: sum.splits)
  then have "Inl err \<in> set (map (build_comments e d (recursion_limit e)) ?top)" by (rule collect_error)
  then obtain c where "build_comments e d (recursion_limit e) c = Inl err" by auto
  then show ?thesis by (rule build_comments_errors)
qed

lemma db_to_poll_no_http: "db_to_poll e poll_db d \<noteq> Inl (HTTPException status det)"
  using db_to_poll_errors [of e poll_db d "HTTPException status det"] by auto

lemma db_to_poll_no_comments:
  "filter (\<lambda>c. c_poll_id c = pl_id poll_db \<and> c_parent_id c = None) (comments d) = []
   \<Longrightarrow> \<not> isl (db_to_poll e poll_db d)"
  by (simp add: db_to_poll_def Let_def)

lemma build_comments_orphan:
  "0 < depth \<Longrightarrow> get_user_db d (c_user_id c) = None \<Longrightarrow> build_comments e d depth c = Inl AttributeError"
  by (cases depth) simp_all

section \<open>Poll options\<close>

lemma find_Some_P: "find P xs = Some x \<Longrightarrow> P x"
  by (induction xs) (auto split: if_splits)

lemma get_option_db_store:
  assumes "get_option_db d oid pid = Some opt" and "o_id opt' = o_id opt" and "o_poll_id opt' = o_poll_id opt"
    and "poll_options d' = store_option opt' (poll_options d)"
  shows "get_option_db d' oid pid = Some opt'"
proof -
  let ?P = "\<lambda>opt. o_id opt = oid \<and> o_poll_id opt = pid"
  have f: "find ?P (poll_options d) = Some opt" using assms(1) by (simp only: get_option_db_def)
  then have P: "?P opt" by (rule find_Some_P)
  have P': "?P opt'" using P assms(2,3) by simp
  have "find ?P (map (\<lambda>y. if o_id y = o_id opt then opt' else y) (poll_options d)) = Some opt'"
    using f P' by (rule find_store) simp
  then show ?thesis using assms(2,4) by (simp add: get_option_db_def store_option_def)
qed

section \<open>The daily ad record\<close>

lemma find_append_none: "find P xs = None \<Longrightarrow> P y \<Longrightarrow> find P (xs @ [y]) = Some y"
  by (induction xs) (auto split: if_splits)

lemma get_ads_row_store:
  assumes "get_ads_row d uid date = Some row" and "a_id row' = a_id row"
    and "a_user_id row' = a_user_id row" and "a_date row' = a_date row"
    and "ads_stats d' = store_ads_row row' (ads_stats d)"
  shows "get_ads_row d' uid date = Some row'"
proof -
  let ?P = "\<lambda>row. a_user_id row = uid \<and> a_date row = date"
  have f: "find ?P (ads_stats d) = Some row" using assms(1) by (simp only: get_ads_row_def)
  then have P: "?P row" by (rule find_Some_P)
  have P': "?P row'" using P assms(3,4) by simp
  have "find ?P (map (\<lambda>y. if a_id y = a_id row then row' else y) (ads_stats d)) = Some row'"
    using f P' by (rule find_store) simp
  then show ?thesis using assms(2,5) by (simp add: get_ads_row_def store_ads_row_def)
qed

lemma get_ads_row_append:
  assumes "get_ads_row d uid date = None" and "a_user_id row' = uid" and "a_date row' = date"
    and "ads_stats d' = ads_stats d @ [row']"
  shows "get_ads_row d' uid date = Some row'"
  using assms find_append_none [of "\<lambda>row. a_user_id row = uid \<and> a_date row = date" "ads_stats d" row']
  by (simp add: get_ads_row_def)

section \<open>Lookups in the example database\<close>

lemma db0_lookups:
  "get_request_db db0 ''r1'' = Some req1" "get_request_db db0 ''r2'' = Some req2"
  "get_user_db db0 ''u1'' = Some alice" "get_user_db db0 ''u2'' = Some bob"
  by (simp_all add: get_request_db_def get_user_db_def db0_def req1_def req2_def alice_def bob_def)

lemma db0_poll_lookups:
  "get_poll_db db0 ''p1'' = Some poll1" "get_option_db db0 ''o1'' ''p1'' = Some opt1"
  "get_user_db db0 ''ghost'' = None"
  by (simp_all add: get_poll_db_def get_option_db_def get_user_db_def db0_def poll1_def opt1_def
      alice_def bob_def)

lemma db0_ads_lookup: "get_ads_row db0 ''u1'' ''2024-01-01'' = Some ads1"
  by (simp add: get_ads_row_def db0_def ads1_def)

section \<open>The claims\<close>

text \<open>
  C1.  A redemption request of an existing user whose balance covers the amount is toggled
  pending \<rightarrow> processed \<rightarrow> pending \<rightarrow> processed.  The amount is not negative and the stored
  balance \<open>c\<close> is a value of its 64-bit column.  All three updates succeed, and the owner's
  balance is \<open>c - amount\<close>, then \<open>c\<close>, then \<open>c - amount\<close>: a debit, a refund and a debit, in
  that order, for a net change of \<open>- amount\<close>.
\<close>

theorem toggle_net_single_debit:
  assumes req: "get_request_db d rid = Some r" and pending: "r_status r = ''pending''"
    and own: "get_user_db d (r_user_id r) = Some u" and suff: "r_amount r \<le> u_coins u"
    and amount: "0 \<le> r_amount r" and stored: "int64 (u_coins u)"
    and to1: "data1 ''status'' = Some ''processed''"
    and to2: "data2 ''status'' = Some ''pending''"
    and to3: "data3 ''status'' = Some ''processed''"
  shows "\<exists>s1 x1 s2 x2 s3 x3.
           update_redemption_request_status e1 d rid data1 = Inr (s1, x1)
         \<and> map_option u_coins (get_user_db s1 (r_user_id r)) = Some (u_coins u - r_amount r)
         \<and> update_redemption_request_status e2 s1 rid data2 = Inr (s2, x2)
         \<and> map_option u_coins (get_user_db s2 (r_user_id r)) = Some (u_coins u)
         \<and> update_redemption_request_status e3 s2 rid data3 = Inr (s3, x3)
         \<and> map_option u_coins (get_user_db s3 (r_user_id r)) = Some (u_coins u - r_amount r)"
proof -
  define r1 where "r1 = write_status e1 r ''processed'' data1"
  define u1 where "u1 = u\<lparr>u_coins := u_coins u - r_amount r\<rparr>"
  define r2 where "r2 = write_status e2 r1 ''pending'' data2"
  define u2 where "u2 = u1\<lparr>u_coins := u_coins u1 + r_amount r1\<rparr>"
  define u3 where "u3 = u2\<lparr>u_coins := u_coins u2 - r_amount r2\<rparr>"
  have ids: "r_user_id r1 = r_user_id r" "r_user_id r2 = r_user_id r"
    "r_amount r1 = r_amount r" "r_amount r2 = r_amount r"
    "r_status r1 = ''processed''" "r_status r2 \<noteq> ''processed''"
    by (simp_all add: r1_def r2_def)
  have coins: "u_coins u1 = u_coins u - r_amount r" "u_coins u2 = u_coins u"
    "u_coins u3 = u_coins u - r_amount r"
    by (simp_all add: u1_def u2_def u3_def ids)
  have old1: "r_status r \<noteq> ''processed''" using pending by simp
  have fit1: "bind_ok (u_coins u) (u_coins u - r_amount r)"
    using stored amount suff by (intro int64_bind_ok int64_sub)
  have fit2: "bind_ok (u_coins u1) (u_coins u1 + r_amount r1)"
    using stored by (simp add: coins ids int64_bind_ok)
  have pnp: "''pending'' \<noteq> ''processed''" by simp
  obtain s1 x1 where run1: "update_redemption_request_status e1 d rid data1 = Inr (s1, x1)"
    and req1: "get_request_db s1 rid = Some r1"
    and own1: "get_user_db s1 (r_user_id r) = Some u1"
    unfolding r1_def u1_def
    using update_into_processed [where e = e1 and data = data1, OF req own old1 to1 suff fit1] by blast
  have own1': "get_user_db s1 (r_user_id r1) = Some u1" using own1 ids by simp
  obtain s2 x2 where run2: "update_redemption_request_status e2 s1 rid data2 = Inr (s2, x2)"
    and req2: "get_request_db s2 rid = Some r2"
    and own2: "get_user_db s2 (r_user_id r1) = Some u2"
    unfolding r2_def u2_def
    using update_out_of_processed [where e = e2 and data = data2, OF req1 own1' ids(5) to2 pnp fit2]
    by blast
  have own2': "get_user_db s2 (r_user_id r2) = Some u2" using own2 ids by simp
  have suff2: "r_amount r2 \<le> u_coins u2" using suff ids coins by simp
  have fit3: "bind_ok (u_coins u2) (u_coins u2 - r_amount r2)"
    using fit1 by (simp add: coins ids)
  obtain s3 x3 where run3: "update_redemption_request_status e3 s2 rid data3 = Inr (s3, x3)"
    and own3: "get_user_db s3 (r_user_id r2) = Some u3"
    unfolding u3_def
    using update_into_processed [where e = e3 and data = data3, OF req2 own2' ids(6) to3 suff2 fit3]
    by blast
  have "map_option u_coins (get_user_db s1 (r_user_id r)) = Some (u_coins u - r_amount r)"
    using own1 coins by simp
  moreover have "map_option u_coins (get_user_db s2 (r_user_id r)) = Some (u_coins u)"
    using own2 ids coins by simp
  moreover have "map_option u_coins (get_user_db s3 (r_user_id r)) = Some (u_coins u - r_amount r)"
    using own3 ids coins by simp
  ultimately show ?thesis using run1 run2 run3 by blast
qed

theorem toggle_net_single_debit_witness:
  "\<exists>s1 x1 s2 x2 s3 x3.
       update_redemption_request_status env0 db0 ''r1'' [''status'' \<mapsto> ''processed''] = Inr (s1, x1)
     \<and> map_option u_coins (get_user_db s1 ''u1'') = Some 4
     \<and> update_redemption_request_status env0 s1 ''r1'' [''status'' \<mapsto> ''pending''] = Inr (s2, x2)
     \<and> map_option u_coins (get_user_db s2 ''u1'') = Some 10
     \<and> update_redemption_request_status env0 s2 ''r1'' [''status'' \<mapsto> ''processed''] = Inr (s3, x3)
     \<and> map_option u_coins (get_user_db s3 ''u1'') = Some 4"
proof -
  have req: "get_request_db db0 ''r1'' = Some req1" by (rule db0_lookups)
  have pending: "r_status req1 = ''pending''" by (simp add: req1_def)
  have own: "get_user_db db0 (r_user_id req1) = Some alice" by (simp add: req1_def db0_lookups)
  have suff: "r_amount req1 \<le> u_coins alice" by (simp add: req1_def alice_def)
  have amount: "0 \<le> r_amount req1" by (simp add: req1_def)
  have stored: "int64 (u_coins alice)" by (simp add: alice_def int64_def)
  have to1: "[''status'' \<mapsto> ''processed''] ''status'' = Some ''processed''" by simp
  have to2: "[''status'' \<mapsto> ''pending''] ''status'' = Some ''pending''" by simp
  have vals: "r_user_id req1 = ''u1''" "r_amount req1 = 6" "u_coins alice = 10"
    by (simp_all add: req1_def alice_def)
  show ?thesis
    using toggle_net_single_debit [where ?e1.0 = env0 and ?e2.0 = env0 and ?e3.0 = env0
        and ?data1.0 = "[''status'' \<mapsto> ''processed'']" and ?data2.0 = "[''status'' \<mapsto> ''pending'']"
        and ?data3.0 = "[''status'' \<mapsto> ''processed'']", OF req pending own suff amount stored to1 to2 to1]
    by (simp add: vals)
qed

text \<open>
  C2.  Setting a request that is not yet processed to \<open>processed\<close> while the owner's balance
  is below the amount fails with HTTP 400 "User does not have enough coins", and the
  database (the balance, and the request's status, notes and timestamp) is as before.
\<close>

theorem insufficient_funds_rejected:
  assumes req: "get_request_db d rid = Some r" and old: "r_status r \<noteq> ''processed''"
    and own: "get_user_db d (r_user_id r) = Some u" and short: "u_coins u < r_amount r"
    and new: "data ''status'' = Some ''processed''"
  shows "update_redemption_request_status e d rid data
           = Inl (HTTPException 400 (Not_enough_coins (u_coins u) (r_amount r)))
       \<and> db_after d (update_redemption_request_status e d rid data) = d"
  using assms by (simp add: update_redemption_request_status_def dict_get_def db_after_def)

theorem insufficient_funds_rejected_witness:
  "update_redemption_request_status env0 db0 ''r2'' [''status'' \<mapsto> ''processed'']
     = Inl (HTTPException 400 (Not_enough_coins 0 6))
   \<and> db_after db0 (update_redemption_request_status env0 db0 ''r2'' [''status'' \<mapsto> ''processed'']) = db0"
proof -
  have req: "get_request_db db0 ''r2'' = Some req2" by (rule db0_lookups)
  have old: "r_status req2 \<noteq> ''processed''" by (simp add: req2_def)
  have own: "get_user_db db0 (r_user_id req2) = Some bob" by (simp add: req2_def db0_lookups)
  have short: "u_coins bob < r_amount req2" by (simp add: req2_def bob_def)
  have new: "[''status'' \<mapsto> ''processed''] ''status'' = Some ''processed''" by simp
  have vals: "u_coins bob = 0" "r_amount req2 = 6" by (simp_all add: req2_def bob_def)
  show ?thesis
    using insufficient_funds_rejected [where e = env0 and data = "[''status'' \<mapsto> ''processed'']",
        OF req old own short new]
    unfolding vals .
qed

text \<open>
  C4 (as the code has it).  Creating a redemption request never checks or changes a balance:
  the user table is the same afterwards and the call never fails with the "not enough coins"
  error.  The stored status is the status sent in the request body (so \<open>pending\<close> when the
  client sends \<open>pending\<close>), together with the amount and owner sent; the call succeeds whenever
  the dates parse, the amount fits the 64-bit column and the id is new.
\<close>

theorem create_stores_payload_status:
  "users (db_after d (add_redemption_request e d request)) = users d
   \<and> (\<forall>c a. add_redemption_request e d request \<noteq> Inl (HTTPException 400 (Not_enough_coins c a)))
   \<and> (date_parse e (q_requestedAt request) \<noteq> None \<and> parse_optional e (q_updatedAt request) \<noteq> None
        \<and> int64 (q_amount request) \<and> q_id request \<notin> set (map r_id (redemption_requests d))
      \<longrightarrow> (\<exists>d' x r. add_redemption_request e d request = Inr (d', x)
              \<and> get_request_db d' (q_id request) = Some r
              \<and> r_status r = q_status request \<and> r_amount r = q_amount request
              \<and> r_user_id r = cu_id (q_user request)))"
proof (intro conjI allI impI)
  show "users (db_after d (add_redemption_request e d request)) = users d"
    by (simp add: add_redemption_request_def db_after_def Let_def split: option.splits)
next
  fix c a
  show "add_redemption_request e d request \<noteq> Inl (HTTPException 400 (Not_enough_coins c a))"
    by (simp add: add_redemption_request_def Let_def split: option.splits)
next
  assume ok: "date_parse e (q_requestedAt request) \<noteq> None \<and> parse_optional e (q_updatedAt request) \<noteq> None
        \<and> int64 (q_amount request) \<and> q_id request \<notin> set (map r_id (redemption_requests d))"
  then obtain ra ua where ra: "date_parse e (q_requestedAt request) = Some ra"
    and ua: "parse_optional e (q_updatedAt request) = Some ua" by auto
  let ?r = "\<lparr>r_id = q_id request, r_user_id = cu_id (q_user request),
                             r_amount = q_amount request, r_paymentDetails = q_paymentDetails request,
                             r_status = q_status request, r_requestedAt = ra,
                             r_updatedAt = ua, r_adminNotes = q_adminNotes request\<rparr>"
  let ?d' = "d\<lparr>redemption_requests := redemption_requests d @ [?r]\<rparr>"
  have fresh: "q_id request \<notin> set (map r_id (redemption_requests d))" using ok by simp
  have fit: "int64 (q_amount request)" using ok by simp
  have stored: "get_request_db ?d' (q_id request) = Some ?r"
    using find_append_fresh [where key = r_id and y = ?r, OF fresh]
    by (simp add: get_request_db_def)
  have "\<exists>x. add_redemption_request e d request = Inr (?d', x)"
    using ra ua fresh fit stored
    by (simp add: add_redemption_request_def Let_def split: option.splits)
  then show "\<exists>d' x r. add_redemption_request e d request = Inr (d', x)
              \<and> get_request_db d' (q_id request) = Some r
              \<and> r_status r = q_status request \<and> r_amount r = q_amount request
              \<and> r_user_id r = cu_id (q_user request)"
    using stored by fastforce
qed

theorem create_stores_payload_status_witness:
  "\<exists>d' x r. add_redemption_request env0 db0 (rq_processed\<lparr>q_status := ''pending''\<rparr>) = Inr (d', x)
      \<and> get_request_db d' ''r3'' = Some r \<and> r_status r = ''pending'' \<and> r_amount r = 6
      \<and> users d' = users db0"
proof -
  let ?rq = "rq_processed\<lparr>q_status := ''pending''\<rparr>"
  have ok: "date_parse env0 (q_requestedAt ?rq) \<noteq> None \<and> parse_optional env0 (q_updatedAt ?rq) \<noteq> None
        \<and> int64 (q_amount ?rq) \<and> q_id ?rq \<notin> set (map r_id (redemption_requests db0))"
    by (simp add: fixture_defs rq_processed_def parse_optional_def int64_def)
  have vals: "q_id ?rq = ''r3''" "q_status ?rq = ''pending''" "q_amount ?rq = 6"
    by (simp_all add: rq_processed_def)
  from create_stores_payload_status [of db0 env0 ?rq] ok
  obtain d' x r where run: "add_redemption_request env0 db0 ?rq = Inr (d', x)"
    and r: "get_request_db d' (q_id ?rq) = Some r" "r_status r = q_status ?rq" "r_amount r = q_amount ?rq"
    and us: "users (db_after db0 (add_redemption_request env0 db0 ?rq)) = users db0"
    by blast
  have "users d' = users db0" using us run by (simp add: db_after_def)
  then show ?thesis using run r vals by auto
qed

text \<open>The status is not forced to \<open>pending\<close>: a body that says \<open>processed\<close> is stored as
  \<open>processed\<close>.\<close>

theorem create_initial_status_counterexample:
  "map_option r_status
     (get_request_db (db_after db0 (add_redemption_request env0 db0 rq_processed)) ''r3'')
   = Some ''processed''"
  by (simp add: add_redemption_request_def parse_optional_def get_request_db_def get_user_db_def
      db_after_def Let_def int64_def fixture_defs rq_processed_def)

text \<open>
  C9.  A status update in which neither the old nor the new status is \<open>processed\<close>, on a
  request whose owner exists, succeeds; the user table (so every balance) is unchanged and the
  stored request is the old one with only status, adminNotes and updatedAt written: amount,
  owner, id, payment details and requestedAt are as before.
\<close>

theorem no_crossing_status_only:
  assumes req: "get_request_db d rid = Some r" and own: "get_user_db d (r_user_id r) = Some u"
    and old: "r_status r \<noteq> ''processed''"
    and new: "dict_get data ''status'' (r_status r) \<noteq> ''processed''"
  shows "\<exists>d' x r'. update_redemption_request_status e d rid data = Inr (d', x)
           \<and> users d' = users d
           \<and> get_request_db d' rid = Some r'
           \<and> r' = r\<lparr>r_status := dict_get data ''status'' (r_status r),
                     r_adminNotes := (case data ''adminNotes'' of None \<Rightarrow> r_adminNotes r | Some n \<Rightarrow> Some n),
                     r_updatedAt := Some (now e)\<rparr>
           \<and> r_amount r' = r_amount r \<and> r_user_id r' = r_user_id r \<and> r_id r' = r_id r
           \<and> r_paymentDetails r' = r_paymentDetails r \<and> r_requestedAt r' = r_requestedAt r"
proof -
  let ?s = "dict_get data ''status'' (r_status r)"
  let ?r' = "write_status e r ?s data"
  let ?d' = "d\<lparr>redemption_requests := store_request ?r' (redemption_requests d)\<rparr>"
  have rid: "r_id r = rid" using req by (rule get_request_db_id)
  have run: "update_redemption_request_status e d rid data =
             Inr (?d', to_redemption_request e ?r' (to_comment_user u))"
    using req own old new commit_status_ok [OF req own, of e ?s data]
    by (simp add: update_redemption_request_status_def Let_def)
  have req': "get_request_db ?d' rid = Some ?r'"
    using req by (rule get_request_db_store) (simp_all add: rid)
  have us: "users ?d' = users d" by simp
  have shape: "?r' = r\<lparr>r_status := ?s,
                     r_adminNotes := (case data ''adminNotes'' of None \<Rightarrow> r_adminNotes r | Some n \<Rightarrow> Some n),
                     r_updatedAt := Some (now e)\<rparr>"
    by (simp add: write_status_def)
  have frame: "r_amount ?r' = r_amount r" "r_user_id ?r' = r_user_id r" "r_id ?r' = r_id r"
    "r_paymentDetails ?r' = r_paymentDetails r" "r_requestedAt ?r' = r_requestedAt r"
    by (simp_all add: write_status_def)
  show ?thesis using run req' us shape frame by blast
qed

theorem no_crossing_status_only_witness:
  "\<exists>d' x r'. update_redemption_request_status env0 db0 ''r1'' [''status'' \<mapsto> ''rejected''] = Inr (d', x)
           \<and> users d' = users db0
           \<and> get_request_db d' ''r1'' = Some r'
           \<and> r_status r' = ''rejected'' \<and> r_amount r' = 6 \<and> r_user_id r' = ''u1''"
proof -
  have req: "get_request_db db0 ''r1'' = Some req1" by (rule db0_lookups)
  have own: "get_user_db db0 (r_user_id req1) = Some alice" by (simp add: req1_def db0_lookups)
  have old: "r_status req1 \<noteq> ''processed''" by (simp add: req1_def)
  have new: "dict_get [''status'' \<mapsto> ''rejected''] ''status'' (r_status req1) \<noteq> ''processed''"
    by (simp add: dict_get_def)
  have vals: "r_amount req1 = 6" "r_user_id req1 = ''u1''"
    "dict_get [''status'' \<mapsto> ''rejected''] ''status'' (r_status req1) = ''rejected''"
    by (simp_all add: req1_def dict_get_def)
  obtain d' x r' where "update_redemption_request_status env0 db0 ''r1'' [''status'' \<mapsto> ''rejected''] = Inr (d', x)"
    and "users d' = users db0" and "get_request_db d' ''r1'' = Some r'"
    and "r' = req1\<lparr>r_status := dict_get [''status'' \<mapsto> ''rejected''] ''status'' (r_status req1),
                     r_adminNotes := (case [''status'' \<mapsto> ''rejected''] ''adminNotes'' of
                                        None \<Rightarrow> r_adminNotes req1 | Some n \<Rightarrow> Some n),
                     r_updatedAt := Some (now env0)\<rparr>"
    and "r_amount r' = r_amount req1" and "r_user_id r' = r_user_id req1"
    using no_crossing_status_only [where e = env0 and data = "[''status'' \<mapsto> ''rejected'']",
        OF req own old new] by blast
  then show ?thesis using vals by auto
qed

text \<open>
  C7.  A profile update (PUT /users/{user_id}) of an existing user leaves that user's coin
  balance as it was, whatever \<open>coins\<close> value the payload carries; when the update succeeds the
  response shows the server-side balance and the other profile fields (here the name) are
  the payload's.
\<close>

theorem update_user_keeps_coins:
  assumes own: "get_user_db d user_id = Some u"
  shows "map_option u_coins (get_user_db (db_after d (update_user e d user_id user)) user_id)
           = Some (u_coins u)
       \<and> (\<forall>d' x. update_user e d user_id user = Inr (d', x) \<longrightarrow>
             p_coins x = u_coins u
           \<and> map_option u_name (get_user_db d' user_id) = Some (p_name user))"
proof (cases "update_user e d user_id user")
  case (Inl err)
  then show ?thesis using own by (simp add: db_after_def)
next
  case (Inr res)
  obtain d' x where res: "res = (d', x)" by (cases res)
  from Inr res own obtain t where
    d': "d' = d\<lparr>users := store_user (assign_profile u user t) (users d)\<rparr>"
    and x: "x = db_to_user e (assign_profile u user t)"
    by (auto simp: update_user_def Let_def split: option.splits if_splits)
  have uid: "u_id u = user_id" using own by (rule get_user_db_id)
  have look: "get_user_db d' user_id = Some (assign_profile u user t)"
    using own by (rule get_user_db_store) (simp_all add: uid d')
  show ?thesis using Inr res look x by (simp add: db_after_def)
qed

theorem update_user_keeps_coins_witness:
  "map_option u_coins (get_user_db (db_after db0 (update_user env0 db0 ''u1'' profile1)) ''u1'') = Some 10
   \<and> map_option u_name (get_user_db (db_after db0 (update_user env0 db0 ''u1'' profile1)) ''u1'')
       = Some ''Alicia''"
proof -
  have own: "get_user_db db0 ''u1'' = Some alice" by (rule db0_lookups)
  have c: "u_coins alice = 10" by (simp add: alice_def)
  have run: "\<exists>d' x. update_user env0 db0 ''u1'' profile1 = Inr (d', x)"
    by (simp add: update_user_def Let_def get_user_db_def clashes_def bind_ok_def fixture_defs
        profile1_def assign_profile_def)
  from update_user_keeps_coins [OF own, of env0 profile1] run c
  show ?thesis by (auto simp: db_after_def profile1_def)
qed

text \<open>
  C3.  The claim: from a state in which every balance is \<open>\<ge> 0\<close>, any single API operation
  leaves every balance \<open>\<ge> 0\<close>.  The code breaks it on three paths that take an amount
  without the sign check its sibling paths have: in the example database, whose balances are
  10 and 0, a signup whose payload says \<open>coins = -1\<close> stores a user with balance -1; with a
  configured referee reward of -3 a referral application leaves the joiner at -3; and moving a
  processed request of amount -5 back to pending refunds -5, leaving its owner at -5.
\<close>

theorem negative_balance_reachable:
  "balances_nonneg db0
   \<and> balances (api_step env0 db0 (Signup profile_neg)) = [(''u1'', 10), (''u2'', 0), (''u3'', - 1)]
   \<and> \<not> balances_nonneg (api_step env0 db0 (Signup profile_neg))
   \<and> balances_nonneg db_neg_reward
   \<and> balances (api_step env0 db_neg_reward
         (ApplyReferral \<lparr>ab_referralCode = ''ALICE'', ab_joinerUserId = ''u2''\<rparr>))
       = [(''u1'', 25), (''u2'', - 3)]
   \<and> \<not> balances_nonneg (api_step env0 db_neg_reward
          (ApplyReferral \<lparr>ab_referralCode = ''ALICE'', ab_joinerUserId = ''u2''\<rparr>))
   \<and> balances_nonneg db_neg_amount
   \<and> balances (api_step env0 db_neg_amount (UpdateRedemptionStatus ''r4'' [''status'' \<mapsto> ''pending'']))
       = [(''u1'', 10), (''u2'', - 5)]
   \<and> \<not> balances_nonneg (api_step env0 db_neg_amount
          (UpdateRedemptionStatus ''r4'' [''status'' \<mapsto> ''pending'']))"
proof -
  have s1: "users (api_step env0 db0 (Signup profile_neg))
            = [alice, bob, \<lparr>u_id = ''u3'', u_name = ''Carol'', u_email = ''c@x'', u_password = ''pw'',
                 u_avatar = ''av'', u_isAdmin = False, u_coins = - 1, u_dailyAttempts = 3,
                 u_lastAttemptDate = 50, u_isBanned = False, u_mobile = None, u_gender = None,
                 u_bio = None, u_specializations = None, u_referralCode = None,
                 u_referredBy = None\<rparr>]"
    by (simp add: signup_def clashes_def dump_specializations_def db_after_def int64_def Let_def
        db0_def alice_def bob_def env0_def profile_neg_def)
  have s2: "users (api_step env0 db_neg_reward
              (ApplyReferral \<lparr>ab_referralCode = ''ALICE'', ab_joinerUserId = ''u2''\<rparr>))
            = [alice\<lparr>u_coins := 25\<rparr>, bob\<lparr>u_coins := - 3, u_referredBy := Some ''u1''\<rparr>]"
    by (simp add: apply_referral_def get_referral_rewards_def get_setting_def int_setting_def
        truthy_def get_user_db_def store_user_def db_after_def bind_ok_def int64_def Let_def
        db_neg_reward_def db0_def alice_def bob_def env0_def)
  have s3: "users (api_step env0 db_neg_amount
              (UpdateRedemptionStatus ''r4'' [''status'' \<mapsto> ''pending'']))
            = [alice, bob\<lparr>u_coins := - 5\<rparr>]"
    by (simp add: update_redemption_request_status_def commit_status_def write_status_def
        dict_get_def get_request_db_def get_user_db_def store_user_def store_request_def
        db_after_def bind_ok_def int64_def Let_def db_neg_amount_def db0_def alice_def bob_def env0_def)
  have b0: "balances_nonneg db0" "balances_nonneg db_neg_reward" "balances_nonneg db_neg_amount"
    by (simp_all add: balances_nonneg_def db_neg_reward_def db_neg_amount_def db0_def alice_def bob_def)
  show ?thesis
    unfolding balances_def balances_nonneg_def s1 s2 s3
    using b0 by (simp add: balances_nonneg_def alice_def bob_def)
qed

text \<open>
  C6.  The claim: a user's \<open>referredBy\<close> is set at most once and never overwritten, also not
  by a profile update.  \<^verbatim>\<open>apply_referral\<close> has the guard: for Alice, whose \<open>referredBy\<close> is
  \<open>u2\<close>, a second application fails with HTTP 400 "Referral already applied for this user".
  \<^verbatim>\<open>update_user\<close> has none: it assigns \<open>referredBy\<close> from the payload, and PUT /users/u1 with
  \<open>referredBy = u9\<close> changes Alice's \<open>referredBy\<close> from \<open>u2\<close> to \<open>u9\<close>.
\<close>

theorem referredBy_overwritten:
  "map_option u_referredBy (get_user_db db0 ''u1'') = Some (Some ''u2'')
   \<and> apply_referral env0 db0 \<lparr>ab_referralCode = ''BOB'', ab_joinerUserId = ''u1''\<rparr>
       = Inl (HTTPException 400 Referral_already_applied)
   \<and> map_option u_referredBy (get_user_db (api_step env0 db0 (UpdateUser ''u1'' profile1)) ''u1'')
       = Some (Some ''u9'')"
proof (intro conjI)
  show "map_option u_referredBy (get_user_db db0 ''u1'') = Some (Some ''u2'')"
    by (simp add: db0_lookups alice_def)
  show "apply_referral env0 db0 \<lparr>ab_referralCode = ''BOB'', ab_joinerUserId = ''u1''\<rparr>
       = Inl (HTTPException 400 Referral_already_applied)"
    by (simp add: apply_referral_def db0_lookups truthy_def alice_def)
  show "map_option u_referredBy (get_user_db (api_step env0 db0 (UpdateUser ''u1'' profile1)) ''u1'')
       = Some (Some ''u9'')"
    by (simp add: update_user_def Let_def get_user_db_def clashes_def bind_ok_def fixture_defs
        profile1_def assign_profile_def store_user_def db_after_def)
qed

text \<open>
  C5 (as the code has it).  A second vote of a user already in the option's voter list writes
  nothing: the database is as before (same vote count, voter list and balances).  The call is
  answered exactly as a rendering of the current poll by \<^verbatim>\<open>db_to_poll\<close>: it raises no
  HTTP error of its own, in particular none that reports the duplicate, and for a poll without
  comments the answer is the poll.
\<close>

theorem duplicate_vote_is_noop:
  assumes poll: "get_poll_db d poll_id = Some poll_db"
    and opt: "get_option_db d option_id poll_id = Some opt_db"
    and voted: "user_id \<in> set (o_votedBy opt_db)"
  shows "add_vote e d poll_id option_id user_id = (d, db_to_poll e poll_db d)
       \<and> (\<forall>status det. snd (add_vote e d poll_id option_id user_id) \<noteq> Inl (HTTPException status det))
       \<and> (filter (\<lambda>c. c_poll_id c = pl_id poll_db \<and> c_parent_id c = None) (comments d) = []
            \<longrightarrow> \<not> isl (snd (add_vote e d poll_id option_id user_id)))"
proof -
  have run: "add_vote e d poll_id option_id user_id = (d, db_to_poll e poll_db d)"
    using assms by (simp add: add_vote_def)
  show ?thesis
    unfolding run using db_to_poll_no_http db_to_poll_no_comments by simp
qed

theorem duplicate_vote_is_noop_witness:
  "add_vote env0 db0 ''p1'' ''o1'' ''u1'' = (db0, db_to_poll env0 poll1 db0)
   \<and> \<not> isl (snd (add_vote env0 db0 ''p1'' ''o1'' ''u1''))"
proof -
  have voted: "''u1'' \<in> set (o_votedBy opt1)" by (simp add: opt1_def)
  have none: "filter (\<lambda>c. c_poll_id c = pl_id poll1 \<and> c_parent_id c = None) (comments db0) = []"
    by (simp add: db0_def)
  note noop = duplicate_vote_is_noop [OF db0_poll_lookups(1) db0_poll_lookups(2) voted, of env0]
  from noop have "add_vote env0 db0 ''p1'' ''o1'' ''u1'' = (db0, db_to_poll env0 poll1 db0)"
    by (rule conjunct1)
  moreover from noop none have "\<not> isl (snd (add_vote env0 db0 ''p1'' ''o1'' ''u1''))"
    by blast
  ultimately show ?thesis by (rule conjI)
qed

text \<open>Alice has voted on option \<open>o1\<close>; her second vote leaves the database as it is and is
  answered with the poll: the result is not an error value.\<close>

theorem duplicate_vote_counterexample:
  "fst (add_vote env0 db0 ''p1'' ''o1'' ''u1'') = db0
   \<and> \<not> isl (snd (add_vote env0 db0 ''p1'' ''o1'' ''u1''))"
  by (simp add: add_vote_def db_to_poll_def Let_def get_poll_db_def get_option_db_def
      db0_def poll1_def opt1_def)

text \<open>
  C10 (as the code has it).  A vote on an existing poll and option by a \<open>user_id\<close> that
  belongs to no stored user and is not in the option's voter list is committed whenever the
  new vote count fits its 64-bit column: the option's vote count goes up by one, the id is
  appended to its voter list, and the user table is unchanged, so nobody is credited.  The
  answer is the rendering of the poll by \<^verbatim>\<open>db_to_poll\<close> after the commit, which is the poll
  when the poll has no comments.  Whenever a vote raises an HTTP error, it is 404 "Poll not
  found" for a missing poll or 404 "Option not found" for a missing option: never one for a
  missing user.
\<close>

theorem vote_of_unknown_user:
  assumes poll: "get_poll_db d poll_id = Some poll_db"
    and opt: "get_option_db d option_id poll_id = Some opt_db"
    and fresh: "user_id \<notin> set (o_votedBy opt_db)"
    and nouser: "get_user_db d user_id = None"
    and fit: "int64 (o_votes opt_db + 1)"
  shows "(\<exists>d'. add_vote e d poll_id option_id user_id = (d', db_to_poll e poll_db d')
            \<and> get_option_db d' option_id poll_id
                = Some (opt_db\<lparr>o_votes := o_votes opt_db + 1, o_votedBy := o_votedBy opt_db @ [user_id]\<rparr>)
            \<and> users d' = users d
            \<and> (filter (\<lambda>c. c_poll_id c = pl_id poll_db \<and> c_parent_id c = None) (comments d) = []
                 \<longrightarrow> \<not> isl (db_to_poll e poll_db d')))
       \<and> (\<forall>d2 p2 o2 u2 status det.
             snd (add_vote e d2 p2 o2 u2) = Inl (HTTPException status det) \<longrightarrow>
               (status = 404 \<and> det = Poll_not_found \<and> get_poll_db d2 p2 = None)
             \<or> (status = 404 \<and> det = Option_not_found \<and> get_option_db d2 o2 p2 = None))"
proof
  let ?o' = "opt_db\<lparr>o_votes := o_votes opt_db + 1, o_votedBy := o_votedBy opt_db @ [user_id]\<rparr>"
  let ?d' = "d\<lparr>poll_options := store_option ?o' (poll_options d)\<rparr>"
  have run: "add_vote e d poll_id option_id user_id = (?d', db_to_poll e poll_db ?d')"
    using assms by (simp add: add_vote_def Let_def bind_ok_def)
  have look: "get_option_db ?d' option_id poll_id = Some ?o'"
    using opt by (rule get_option_db_store) simp_all
  have render: "filter (\<lambda>c. c_poll_id c = pl_id poll_db \<and> c_parent_id c = None) (comments d) = []
                 \<longrightarrow> \<not> isl (db_to_poll e poll_db ?d')"
    using db_to_poll_no_comments [of poll_db ?d' e] by simp
  show "\<exists>d'. add_vote e d poll_id option_id user_id = (d', db_to_poll e poll_db d')
            \<and> get_option_db d' option_id poll_id = Some ?o' \<and> users d' = users d
            \<and> (filter (\<lambda>c. c_poll_id c = pl_id poll_db \<and> c_parent_id c = None) (comments d) = []
                 \<longrightarrow> \<not> isl (db_to_poll e poll_db d'))"
    using run look render by (intro exI [of _ ?d']) simp
  show "\<forall>d2 p2 o2 u2 status det.
             snd (add_vote e d2 p2 o2 u2) = Inl (HTTPException status det) \<longrightarrow>
               (status = 404 \<and> det = Poll_not_found \<and> get_poll_db d2 p2 = None)
             \<or> (status = 404 \<and> det = Option_not_found \<and> get_option_db d2 o2 p2 = None)"
    by (auto simp: add_vote_def Let_def db_to_poll_no_http split: option.splits if_splits)
qed

theorem vote_of_unknown_user_witness:
  "\<exists>d'. add_vote env0 db0 ''p1'' ''o1'' ''ghost'' = (d', db_to_poll env0 poll1 d')
      \<and> map_option o_votes (get_option_db d' ''o1'' ''p1'') = Some 2
      \<and> map_option o_votedBy (get_option_db d' ''o1'' ''p1'') = Some [''u1'', ''ghost'']
      \<and> users d' = users db0
      \<and> \<not> isl (db_to_poll env0 poll1 d')"
proof -
  have fresh: "''ghost'' \<notin> set (o_votedBy opt1)" by (simp add: opt1_def)
  have fit: "int64 (o_votes opt1 + 1)" by (simp add: opt1_def int64_def)
  have none: "filter (\<lambda>c. c_poll_id c = pl_id poll1 \<and> c_parent_id c = None) (comments db0) = []"
    by (simp add: db0_def)
  have vals: "o_votes opt1 = 1" "o_votedBy opt1 = [''u1'']" by (simp_all add: opt1_def)
  from vote_of_unknown_user [OF db0_poll_lookups(1) db0_poll_lookups(2) fresh db0_poll_lookups(3) fit,
      of env0]
  obtain d' where run: "add_vote env0 db0 ''p1'' ''o1'' ''ghost'' = (d', db_to_poll env0 poll1 d')"
    and look: "get_option_db d' ''o1'' ''p1''
                = Some (opt1\<lparr>o_votes := o_votes opt1 + 1, o_votedBy := o_votedBy opt1 @ [''ghost'']\<rparr>)"
    and us: "users d' = users db0"
    and render: "filter (\<lambda>c. c_poll_id c = pl_id poll1 \<and> c_parent_id c = None) (comments db0) = []
                 \<longrightarrow> \<not> isl (db_to_poll env0 poll1 d')"
    by blast
  have "\<not> isl (db_to_poll env0 poll1 d')" using render none by blast
  then show ?thesis using run look us vals by simp
qed

text \<open>The vote of an unknown user does not always succeed.  With the option's counter at
  9223372036854775807, the largest value of its column, the commit raises and nothing is stored; and when the voter is
  a deleted user whose comment on the poll is still stored, the vote is stored (the count goes
  from 1 to 2) but the call raises \<open>AttributeError\<close>.\<close>

theorem vote_of_unknown_user_counterexample:
  "add_vote env0 db_max_votes ''p1'' ''o1'' ''ghost'' = (db_max_votes, Inl OverflowError)
   \<and> snd (add_vote env0 db_orphan ''p1'' ''o1'' ''gone'') = Inl AttributeError
   \<and> map_option o_votes (get_option_db (fst (add_vote env0 db_orphan ''p1'' ''o1'' ''gone'')) ''o1'' ''p1'')
       = Some 2"
proof -
  have deep: "0 < recursion_limit env0" by (simp add: env0_def)
  have gone: "get_user_db d (c_user_id comment1) = None" if "users d = users db0" for d
    using that by (simp add: get_user_db_def comment1_def db0_def alice_def bob_def)
  have orphan: "db_to_poll env0 poll1 d = Inl AttributeError"
    if "users d = users db0" "comments d = [comment1]" for d
    using build_comments_orphan [OF deep gone [OF that(1)], of env0] that(2)
    by (simp add: db_to_poll_def Let_def comment1_def poll1_def)
  have full: "add_vote env0 db_max_votes ''p1'' ''o1'' ''ghost'' = (db_max_votes, Inl OverflowError)"
    by (simp add: add_vote_def Let_def get_poll_db_def get_option_db_def get_user_db_def
        bind_ok_def int64_def db_max_votes_def db0_def poll1_def opt1_def alice_def bob_def)
  let ?d' = "db_orphan\<lparr>poll_options := [opt1\<lparr>o_votes := 2, o_votedBy := [''u1'', ''gone'']\<rparr>]\<rparr>"
  have run: "add_vote env0 db_orphan ''p1'' ''o1'' ''gone'' = (?d', db_to_poll env0 poll1 ?d')"
    by (simp add: add_vote_def Let_def get_poll_db_def get_option_db_def get_user_db_def
        store_option_def bind_ok_def int64_def db_orphan_def db0_def poll1_def opt1_def alice_def bob_def)
  have err: "db_to_poll env0 poll1 ?d' = Inl AttributeError"
    by (rule orphan) (simp_all add: db_orphan_def)
  have look: "map_option o_votes (get_option_db ?d' ''o1'' ''p1'') = Some 2"
    by (simp add: get_option_db_def opt1_def)
  show ?thesis unfolding run using full err look by simp
qed

text \<open>
  C8 (as the code has it).  For an existing user, when the new balance and the counters of
  today's record fit their 64-bit columns, the ad reward succeeds and credits exactly
  \<open>max 0 amount\<close>; in the same committed state today's record of the user exists: created
  with the grant as its coins and a watch count of 1 if the grant is positive and 0 otherwise,
  or, if it was there, with its coins raised by the grant and its watch count raised by 1 only
  when the grant is positive.  The response carries the updated balance and the record's two
  counters.  When a value does not fit, the call fails with HTTP 500 "Failed to grant reward"
  and nothing is credited or recorded.
\<close>

theorem ads_reward_credits_and_records:
  assumes own: "get_user_db d (rb_userId body) = Some u"
  shows "if bind_ok (u_coins u) (u_coins u + max 0 (rb_amount body))
            \<and> (case get_ads_row d (rb_userId body) (today_ist_date_str e) of
                  None \<Rightarrow> int64 (max 0 (rb_amount body))
                | Some row \<Rightarrow>
                    bind_ok (a_watched row) (a_watched row + (if max 0 (rb_amount body) > 0 then 1 else 0))
                    \<and> bind_ok (a_coins row) (a_coins row + max 0 (rb_amount body)))
         then (\<exists>d' x stats row'.
                 post_ads_reward e d body = Inr (d', x, stats)
               \<and> get_user_db d' (rb_userId body) = Some (u\<lparr>u_coins := u_coins u + max 0 (rb_amount body)\<rparr>)
               \<and> p_coins x = u_coins u + max 0 (rb_amount body)
               \<and> get_ads_row d' (rb_userId body) (today_ist_date_str e) = Some row'
               \<and> s_watched stats = a_watched row' \<and> s_coins stats = a_coins row'
               \<and> (case get_ads_row d (rb_userId body) (today_ist_date_str e) of
                     None \<Rightarrow> a_watched row' = (if max 0 (rb_amount body) > 0 then 1 else 0)
                             \<and> a_coins row' = max 0 (rb_amount body)
                   | Some row \<Rightarrow> a_watched row' = a_watched row + (if max 0 (rb_amount body) > 0 then 1 else 0)
                                 \<and> a_coins row' = a_coins row + max 0 (rb_amount body)))
         else post_ads_reward e d body = Inl (HTTPException 500 Failed_to_grant_reward)
              \<and> db_after d (post_ads_reward e d body) = d"
proof -
  let ?uid = "rb_userId body" and ?date = "today_ist_date_str e"
  let ?grant = "max 0 (rb_amount body)"
  let ?u' = "u\<lparr>u_coins := u_coins u + ?grant\<rparr>"
  let ?d1 = "d\<lparr>users := store_user ?u' (users d)\<rparr>"
  have uid: "u_id u = ?uid" using own by (rule get_user_db_id)
  have one: "int64 (if 0 < ?grant then 1 else 0)" by (simp add: int64_def)
  show ?thesis
  proof (cases "get_ads_row d ?uid ?date")
    case None
    let ?row' = "\<lparr>a_id = next_ads_id (ads_stats d), a_user_id = ?uid, a_date = ?date,
                   a_watched = (if ?grant > 0 then 1 else 0), a_coins = ?grant\<rparr>"
    let ?d2 = "?d1\<lparr>ads_stats := ads_stats ?d1 @ [?row']\<rparr>"
    show ?thesis
    proof (cases "bind_ok (u_coins u) (u_coins u + ?grant) \<and> int64 ?grant")
      case True
      have row: "get_ads_row ?d2 ?uid ?date = Some ?row'"
        using None by (rule get_ads_row_append) simp_all
      have usr: "get_user_db ?d2 ?uid = Some ?u'"
        using own by (rule get_user_db_store) (simp_all add: uid)
      have run: "post_ads_reward e d body =
                   Inr (?d2, db_to_user e ?u',
                        \<lparr>s_userId = ?uid, s_date = ?date, s_watched = a_watched ?row', s_coins = a_coins ?row'\<rparr>)"
        using own None row True one by (simp add: post_ads_reward_def Let_def)
      have "\<exists>d' x stats row'.
                 post_ads_reward e d body = Inr (d', x, stats)
               \<and> get_user_db d' ?uid = Some ?u'
               \<and> p_coins x = u_coins u + ?grant
               \<and> get_ads_row d' ?uid ?date = Some row'
               \<and> s_watched stats = a_watched row' \<and> s_coins stats = a_coins row'
               \<and> a_watched row' = (if ?grant > 0 then 1 else 0) \<and> a_coins row' = ?grant"
        using run usr row
        by (intro exI [of _ ?d2] exI [of _ "db_to_user e ?u'"] exI [of _ ?row']
            exI [of _ "\<lparr>s_userId = ?uid, s_date = ?date, s_watched = a_watched ?row', s_coins = a_coins ?row'\<rparr>"])
           simp
      then show ?thesis using True None by simp
    next
      case False
      then have "post_ads_reward e d body = Inl (HTTPException 500 Failed_to_grant_reward)"
        using own None one by (auto simp: post_ads_reward_def Let_def)
      then show ?thesis using False None by (simp add: db_after_def)
    qed
  next
    case (Some row0)
    let ?row' = "row0\<lparr>a_watched := a_watched row0 + (if ?grant > 0 then 1 else 0),
                      a_coins := a_coins row0 + ?grant\<rparr>"
    let ?d2 = "?d1\<lparr>ads_stats := store_ads_row ?row' (ads_stats ?d1)\<rparr>"
    show ?thesis
    proof (cases "bind_ok (u_coins u) (u_coins u + ?grant)
                  \<and> bind_ok (a_watched row0) (a_watched row0 + (if ?grant > 0 then 1 else 0))
                  \<and> bind_ok (a_coins row0) (a_coins row0 + ?grant)")
      case True
      have row: "get_ads_row ?d2 ?uid ?date = Some ?row'"
        using Some by (rule get_ads_row_store) simp_all
      have usr: "get_user_db ?d2 ?uid = Some ?u'"
        using own by (rule get_user_db_store) (simp_all add: uid)
      have run: "post_ads_reward e d body =
                   Inr (?d2, db_to_user e ?u',
                        \<lparr>s_userId = ?uid, s_date = ?date, s_watched = a_watched ?row', s_coins = a_coins ?row'\<rparr>)"
        using own Some row True by (simp add: post_ads_reward_def Let_def)
      have "\<exists>d' x stats row'.
                 post_ads_reward e d body = Inr (d', x, stats)
               \<and> get_user_db d' ?uid = Some ?u'
               \<and> p_coins x = u_coins u + ?grant
               \<and> get_ads_row d' ?uid ?date = Some row'
               \<and> s_watched stats = a_watched row' \<and> s_coins stats = a_coins row'
               \<and> a_watched row' = a_watched row0 + (if ?grant > 0 then 1 else 0)
               \<and> a_coins row' = a_coins row0 + ?grant"
        using run usr row
        by (intro exI [of _ ?d2] exI [of _ "db_to_user e ?u'"] exI [of _ ?row']
            exI [of _ "\<lparr>s_userId = ?uid, s_date = ?date, s_watched = a_watched ?row', s_coins = a_coins ?row'\<rparr>"])
           simp
      then show ?thesis using True Some by simp
    next
      case False
      then have "post_ads_reward e d body = Inl (HTTPException 500 Failed_to_grant_reward)"
        using own Some by (auto simp: post_ads_reward_def Let_def)
      then show ?thesis using False Some by (simp add: db_after_def)
    qed
  qed
qed

theorem ads_reward_credits_and_records_witness:
  "\<exists>d' x stats. post_ads_reward env0 db0 \<lparr>rb_userId = ''u1'', rb_amount = 5\<rparr> = Inr (d', x, stats)
      \<and> map_option u_coins (get_user_db d' ''u1'') = Some 15 \<and> p_coins x = 15
      \<and> s_watched stats = 2 \<and> s_coins stats = 10"
proof -
  let ?body = "\<lparr>rb_userId = ''u1'', rb_amount = 5\<rparr>"
  have own: "get_user_db db0 (rb_userId ?body) = Some alice" by (simp add: db0_lookups)
  have row0: "get_ads_row db0 (rb_userId ?body) (today_ist_date_str env0) = Some ads1"
    by (simp add: env0_def db0_ads_lookup)
  have vals: "u_coins alice = 10" "a_watched ads1 = 1" "a_coins ads1 = 5"
    by (simp_all add: alice_def ads1_def)
  have fits: "bind_ok (u_coins alice) (u_coins alice + max 0 (rb_amount ?body))
            \<and> (case get_ads_row db0 (rb_userId ?body) (today_ist_date_str env0) of
                  None \<Rightarrow> int64 (max 0 (rb_amount ?body))
                | Some row \<Rightarrow>
                    bind_ok (a_watched row) (a_watched row + (if max 0 (rb_amount ?body) > 0 then 1 else 0))
                    \<and> bind_ok (a_coins row) (a_coins row + max 0 (rb_amount ?body)))"
    unfolding row0 by (simp add: vals bind_ok_def int64_def)
  have "\<exists>d' x stats row'.
           post_ads_reward env0 db0 ?body = Inr (d', x, stats)
         \<and> get_user_db d' (rb_userId ?body) = Some (alice\<lparr>u_coins := u_coins alice + max 0 (rb_amount ?body)\<rparr>)
         \<and> p_coins x = u_coins alice + max 0 (rb_amount ?body)
         \<and> get_ads_row d' (rb_userId ?body) (today_ist_date_str env0) = Some row'
         \<and> s_watched stats = a_watched row' \<and> s_coins stats = a_coins row'
         \<and> (case get_ads_row db0 (rb_userId ?body) (today_ist_date_str env0) of
               None \<Rightarrow> a_watched row' = (if max 0 (rb_amount ?body) > 0 then 1 else 0)
                       \<and> a_coins row' = max 0 (rb_amount ?body)
             | Some row \<Rightarrow> a_watched row' = a_watched row + (if max 0 (rb_amount ?body) > 0 then 1 else 0)
                           \<and> a_coins row' = a_coins row + max 0 (rb_amount ?body))"
    using ads_reward_credits_and_records [OF own, of env0] fits by (simp only: if_True)
  then obtain d' x stats row' where run: "post_ads_reward env0 db0 ?body = Inr (d', x, stats)"
    and usr: "get_user_db d' (rb_userId ?body) = Some (alice\<lparr>u_coins := u_coins alice + max 0 (rb_amount ?body)\<rparr>)"
    and resp: "p_coins x = u_coins alice + max 0 (rb_amount ?body)"
    and look: "get_ads_row d' (rb_userId ?body) (today_ist_date_str env0) = Some row'"
    and st: "s_watched stats = a_watched row'" "s_coins stats = a_coins row'"
    and rec: "case get_ads_row db0 (rb_userId ?body) (today_ist_date_str env0) of
               None \<Rightarrow> a_watched row' = (if max 0 (rb_amount ?body) > 0 then 1 else 0)
                       \<and> a_coins row' = max 0 (rb_amount ?body)
             | Some row \<Rightarrow> a_watched row' = a_watched row + (if max 0 (rb_amount ?body) > 0 then 1 else 0)
                           \<and> a_coins row' = a_coins row + max 0 (rb_amount ?body)"
    by (elim exE conjE) (rule that; assumption)
  have "a_watched row' = 2" "a_coins row' = 10" using rec row0 vals by simp_all
  then show ?thesis using run usr resp st vals by simp
qed

text \<open>A reward of 0 for Alice, who has a record with one watch today, leaves the watch count
  at 1: it is not incremented.  And a reward of 1 for a user whose balance is
  9223372036854775807, the largest value of its column, is not credited: the call fails with HTTP 500 and the balance is as before.\<close>

theorem ads_watched_counterexample:
  "map_option a_watched
     (get_ads_row (db_after db0 (post_ads_reward env0 db0 \<lparr>rb_userId = ''u1'', rb_amount = 0\<rparr>))
        ''u1'' ''2024-01-01'') = Some 1
   \<and> post_ads_reward env0 db_max_coins \<lparr>rb_userId = ''u1'', rb_amount = 1\<rparr>
       = Inl (HTTPException 500 Failed_to_grant_reward)
   \<and> map_option u_coins
       (get_user_db (db_after db_max_coins (post_ads_reward env0 db_max_coins \<lparr>rb_userId = ''u1'', rb_amount = 1\<rparr>))
          ''u1'') = Some 9223372036854775807"
proof (intro conjI)
  show "map_option a_watched
     (get_ads_row (db_after db0 (post_ads_reward env0 db0 \<lparr>rb_userId = ''u1'', rb_amount = 0\<rparr>))
        ''u1'' ''2024-01-01'') = Some 1"
    by (simp add: post_ads_reward_def get_user_db_def get_ads_row_def store_ads_row_def db_after_def
        bind_ok_def Let_def db0_def alice_def bob_def ads1_def env0_def)
  have fail: "post_ads_reward env0 db_max_coins \<lparr>rb_userId = ''u1'', rb_amount = 1\<rparr>
       = Inl (HTTPException 500 Failed_to_grant_reward)"
    by (simp add: post_ads_reward_def get_user_db_def get_ads_row_def bind_ok_def int64_def
        Let_def db_max_coins_def db0_def alice_def bob_def ads1_def env0_def)
  then show "post_ads_reward env0 db_max_coins \<lparr>rb_userId = ''u1'', rb_amount = 1\<rparr>
       = Inl (HTTPException 500 Failed_to_grant_reward)" .
  show "map_option u_coins
       (get_user_db (db_after db_max_coins (post_ads_reward env0 db_max_coins \<lparr>rb_userId = ''u1'', rb_amount = 1\<rparr>))
          ''u1'') = Some 9223372036854775807"
    unfolding fail by (simp add: db_after_def get_user_db_def db_max_coins_def db0_def alice_def bob_def)
qed

end
